theory Spec2Isabelle
  imports Main "HOL-Library.Word" "HOL-Library.Signed_Division"
begin

section \<open>Data model of the chat boxer (go/chat/boxer.go)\<close>

text \<open>
  Modelled from the spec: the record types of the packages chat1, keybase1 and gregor1,
  which are generated from the protocol files and are not among the sources, with the
  fields that boxer.go reads and writes. Field names carry a prefix for their record, since
  several records share a field name.

  Byte strings are lists of 8-bit words. Identifiers that the boxer only passes through
  (conversation triple, outbox data, Merkle root, user and device ids) are kept as plain
  byte strings or numbers. Go's \<open>int\<close> key generation and the millisecond clocks are
  only compared, never computed with, so they are unbounded integers.
\<close>

type_synonym byte = "8 word"
type_synonym bytes = "byte list"
type_synonym Hash = bytes
type_synonym MessageID = nat
type_synonym ConversationID = bytes
type_synonym Time = int \<comment> \<open>gregor1.Time and keybase1.Time: milliseconds since the epoch\<close>
type_synonym gotime = int \<comment> \<open>time.Time: nanoseconds since the epoch\<close>
type_synonym MerkleRoot = "int \<times> bytes"

record CryptKey =
  KeyGeneration :: int
  Key :: bytes

record EncryptedData =
  ed_V :: int
  ed_E :: bytes
  ed_N :: bytes

record SignatureInfo =
  si_V :: int
  si_S :: bytes
  si_K :: bytes

record NaclSigInfo =
  nsi_Version :: int
  nsi_Sig :: bytes
  nsi_Kid :: bytes

record MessagePreviousPointer =
  prev_Id :: MessageID
  prev_Hash :: Hash

record MessageServerHeader =
  sh_MessageID :: MessageID
  sh_SupersededBy :: MessageID
  sh_Ctime :: Time

record MessageClientHeader =
  ch_Conv :: bytes
  ch_TlfName :: string
  ch_TlfPublic :: bool
  ch_MessageType :: nat
  ch_Prev :: "MessagePreviousPointer list"
  ch_Sender :: bytes
  ch_SenderDevice :: bytes
  ch_MerkleRoot :: "MerkleRoot option"
  ch_OutboxID :: "bytes option"
  ch_OutboxInfo :: "bytes option"

text \<open>The message body is a tagged union the boxer never inspects: a tag and a payload.
  \<open>MessageBody_zero\<close> is Go's zero value of the struct.\<close>

datatype MessageBody = MessageBody nat bytes

definition MessageBody_zero :: MessageBody where
  "MessageBody_zero = MessageBody 0 []"

record MessagePlaintext =
  pt_ClientHeader :: MessageClientHeader
  pt_MessageBody :: MessageBody

record MessageBoxed =
  boxed_ServerHeader :: "MessageServerHeader option"
  boxed_ClientHeader :: MessageClientHeader
  boxed_HeaderCiphertext :: EncryptedData
  boxed_BodyCiphertext :: EncryptedData
  boxed_KeyGeneration :: int

record HeaderPlaintextV1 =
  hp_Conv :: bytes
  hp_TlfName :: string
  hp_TlfPublic :: bool
  hp_MessageType :: nat
  hp_Prev :: "MessagePreviousPointer list"
  hp_Sender :: bytes
  hp_SenderDevice :: bytes
  hp_BodyHash :: Hash
  hp_OutboxInfo :: "bytes option"
  hp_OutboxID :: "bytes option"
  hp_HeaderSignature :: "SignatureInfo option"

record HeaderPlaintextUnsupported =
  hpu_Crit :: bool

record BodyPlaintextV1 =
  bp_MessageBody :: MessageBody

record BodyPlaintextUnsupported =
  bpu_Crit :: bool

text \<open>
  Modelled from the spec: the versioned unions of the generated package chat1. A union
  holds a version tag and one pointer per version; \<open>Version()\<close> fails when the pointer
  for the tag is nil. The four shapes a decoded union can have: version 1, a reserved
  version \<open>v\<close> from 2 to 10 with its meta info, a tag \<open>v\<close> outside 1..10, and a tag
  whose variant is nil.
\<close>

datatype HeaderPlaintext =
    HeaderPlaintext_V1 HeaderPlaintextV1
  | HeaderPlaintext_Unsupported int HeaderPlaintextUnsupported
  | HeaderPlaintext_Unknown int
  | HeaderPlaintext_NilVariant int

datatype BodyPlaintext =
    BodyPlaintext_V1 BodyPlaintextV1
  | BodyPlaintext_Unsupported int BodyPlaintextUnsupported
  | BodyPlaintext_Unknown int
  | BodyPlaintext_NilVariant int

subsection \<open>Errors\<close>

datatype fmtarg = ArgInt int | ArgString string | ArgBool bool

datatype goerror =
    errors_New string
  | fmt_Errorf string "fmtarg list"
  | DecryptBadNonceError
  | DecryptOpenError
  | BadSigError string
  | NoKeyError string
  | BodyHashInvalid
  | HeaderVersionError int HeaderPlaintextUnsupported
  | BodyVersionError int BodyPlaintextUnsupported
  | ExternalError string

text \<open>Modelled from the spec: the unboxing errors of errors.go, which is not among the
  sources: a permanent and a transient class, each wrapping an inner error.
  A Go \<open>error\<close> interface value is \<open>goerror option\<close>: \<open>None\<close> is nil.
  \<open>NewPermanentUnboxingError\<close> and \<open>NewTransientUnboxingError\<close> wrap whatever
  they are given, nil included.\<close>

datatype UnboxingError =
    NewPermanentUnboxingError "goerror option"
  | NewTransientUnboxingError "goerror option"

fun IsPermanent :: "UnboxingError \<Rightarrow> bool" where
  "IsPermanent (NewPermanentUnboxingError _) = True"
| "IsPermanent (NewTransientUnboxingError _) = False"

text \<open>Strings built at run time stay symbolic: a literal, a \<open>fmt.Sprintf\<close> with its
  arguments, or the text of an error.\<close>

datatype gostring =
    Literal string
  | fmt_Sprintf string "fmtarg list"
  | error_Error goerror
  | UnboxingError_Error UnboxingError

text \<open>Modelled from the spec: the boxing errors of errors.go, which is not among the
  sources. \<open>NewBoxingError(msg, perm)\<close> keeps its message and its permanent flag (the
  blank TLF name, a permanent error, is built with \<open>true\<close>);
  \<open>NewBoxingCryptKeysError(err)\<close> is the transient failure of key resolution.\<close>

datatype BoxingError =
    NewBoxingError gostring bool
  | NewBoxingCryptKeysError goerror

fun be_Perm :: "BoxingError \<Rightarrow> bool" where
  "be_Perm (NewBoxingError _ perm) = perm"
| "be_Perm (NewBoxingCryptKeysError _) = False"

text \<open>Modelled from the spec: the error kinds of the taxonomy and the stored error
  record.\<close>

datatype MessageUnboxedErrorType =
  Misc | BadVersion_Critical | BadVersion | Identity | Ephemeral

record MessageUnboxedError =
  uerr_ErrType :: MessageUnboxedErrorType
  uerr_ErrMsg :: gostring
  uerr_MessageID :: MessageID
  uerr_MessageType :: nat
  uerr_Ctime :: Time

record MessageUnboxedValid =
  valid_ClientHeader :: MessageClientHeader
  valid_ServerHeader :: MessageServerHeader
  valid_MessageBody :: MessageBody
  valid_SenderUsername :: string
  valid_SenderDeviceName :: string
  valid_SenderDeviceType :: string
  valid_BodyHash :: Hash
  valid_HeaderHash :: Hash
  valid_HeaderSignature :: "SignatureInfo option"
  valid_SenderDeviceRevokedAt :: "Time option"

datatype MessageUnboxed =
    MessageUnboxedWithValid MessageUnboxedValid
  | MessageUnboxedWithError MessageUnboxedError

text \<open>What a call can do: panic on a nil pointer, return an unboxing error, or return
  a value.\<close>

datatype 'a result = Panic | Failure UnboxingError | Success 'a

subsection \<open>The boxer and its collaborators\<close>

text \<open>
  The collaborators are outside the file: the key finder, the user loader, the Merkle
  client, the codec, secretbox, the signature primitives. Each is a field of the record
  below, next to the fields of the Go struct \<open>Boxer\<close> (\<open>hashV1\<close>, \<open>sign\<close>,
  \<open>bodyHashChecker\<close>, \<open>prevChecker\<close>). The two checkers record what they see, so
  they take and return the state \<open>'s\<close> of the indexes behind them.
\<close>

record GetTLFCryptKeysRes =
  CanonicalName :: string \<comment> \<open>\<open>cres.NameIDBreaks.CanonicalName\<close>\<close>
  CryptKeys :: "CryptKey list"

record KeybaseTime =
  kt_Unix :: Time
  kt_Chain :: int

record NaclSigningKeyPair =
  SignV2 :: "bytes \<Rightarrow> string \<Rightarrow> goerror + NaclSigInfo"

record UPAKLoader =
  LookupUsernameAndDevice :: "bytes \<Rightarrow> bytes \<Rightarrow> goerror + string \<times> string \<times> string"
  LookupUsername :: "bytes \<Rightarrow> goerror + string"
  CheckKIDForUID :: "string \<Rightarrow> bytes \<Rightarrow> goerror + bool \<times> KeybaseTime option \<times> bool"

record 's Boxer =
  hashV1 :: "bytes \<Rightarrow> Hash"
  b_sign :: "bytes \<Rightarrow> NaclSigningKeyPair \<Rightarrow> string \<Rightarrow> goerror + SignatureInfo"
  bodyHashChecker :: "Hash \<Rightarrow> MessageID \<Rightarrow> ConversationID \<Rightarrow> 's \<Rightarrow> goerror option \<times> 's"
  prevChecker :: "MessageID \<Rightarrow> ConversationID \<Rightarrow> Hash \<Rightarrow> 's \<Rightarrow> goerror option \<times> 's"
  KeyFinder_Find :: "string \<Rightarrow> bool \<Rightarrow> goerror + GetTLFCryptKeysRes"
  GetUPAKLoader :: "UPAKLoader option"
  GetMerkleClient :: "(goerror + MerkleRoot option) option"
    \<comment> \<open>nil client, or the outcome of its \<open>LastRootInfo()\<close>\<close>
  TLFNameExpanded :: "MessageClientHeader \<Rightarrow> bytes option \<Rightarrow> string"
  UIDFromString :: "bytes \<Rightarrow> goerror + string"
    \<comment> \<open>\<open>keybase1.UIDFromString(hex.EncodeToString(sender.Bytes()))\<close>\<close>
  marshal_Body :: "BodyPlaintext \<Rightarrow> goerror + bytes"
  marshal_HeaderV1 :: "HeaderPlaintextV1 \<Rightarrow> goerror + bytes"
  marshal_Header :: "HeaderPlaintext \<Rightarrow> goerror + bytes"
  unmarshal_Body :: "bytes \<Rightarrow> goerror + BodyPlaintext"
  unmarshal_Header :: "bytes \<Rightarrow> goerror + HeaderPlaintext"
  secretbox_Seal :: "bytes \<Rightarrow> bytes \<Rightarrow> bytes \<Rightarrow> bytes" \<comment> \<open>message, nonce, key\<close>
  secretbox_Open :: "bytes \<Rightarrow> bytes \<Rightarrow> bytes \<Rightarrow> bytes option" \<comment> \<open>box, nonce, key\<close>
  NaclSigInfo_Verify :: "int \<Rightarrow> string \<Rightarrow> bytes \<Rightarrow> bytes \<Rightarrow> bytes \<Rightarrow> bool"
    \<comment> \<open>version, prefix, kid, payload, 64-byte signature\<close>
  ExportType :: "UnboxingError \<Rightarrow> MessageUnboxedErrorType"

text \<open>Modelled from the spec: the constants of package libkb, which is not among the
  sources: 24-byte nonces, 32-byte symmetric keys, 64-byte signatures and the chat
  signature prefix.\<close>

definition NaclDHNonceSize :: nat where "NaclDHNonceSize = 24"
definition NaclDHKeySecretSize :: nat where "NaclDHKeySecretSize = 32"
definition NaclSignatureSize :: nat where "NaclSignatureSize = 64"
definition SignaturePrefixChat :: string where "SignaturePrefixChat = ''Keybase-Chat-2''"

text \<open>\<open>init\<close>: the zero key used for public chat messages.\<close>

definition publicCryptKey :: CryptKey where
  "publicCryptKey = \<lparr>KeyGeneration = 1, Key = replicate NaclDHKeySecretSize 0\<rparr>"

section \<open>Boxing\<close>

text \<open>\<open>seal\<close> marshals, draws the nonce and seals. The marshaller of the value's type
  is passed in (the Go code hands an \<open>interface{}\<close> to the codec); \<open>rnd\<close> is the outcome
  of this call's \<open>rand.Read\<close> into the 24-byte nonce array.\<close>

definition seal :: "'s Boxer \<Rightarrow> ('a \<Rightarrow> goerror + bytes) \<Rightarrow> 'a \<Rightarrow> goerror + bytes \<Rightarrow> CryptKey
    \<Rightarrow> goerror + EncryptedData" where
  "seal b marshal dat rnd key =
     (case marshal dat of
        Inl err \<Rightarrow> Inl err
      | Inr s \<Rightarrow>
          (case rnd of
             Inl err \<Rightarrow> Inl err
           | Inr nonce \<Rightarrow>
               Inr \<lparr>ed_V = 1, ed_E = secretbox_Seal b s nonce (Key key), ed_N = nonce\<rparr>))"

definition sign :: "bytes \<Rightarrow> NaclSigningKeyPair \<Rightarrow> string \<Rightarrow> goerror + SignatureInfo" where
  "sign msg kp prefix =
     (case SignV2 kp msg prefix of
        Inl err \<Rightarrow> Inl err
      | Inr sig \<Rightarrow> Inr \<lparr>si_V = nsi_Version sig, si_S = nsi_Sig sig, si_K = nsi_Kid sig\<rparr>)"

definition signMarshal :: "'s Boxer \<Rightarrow> HeaderPlaintextV1 \<Rightarrow> NaclSigningKeyPair \<Rightarrow> string
    \<Rightarrow> goerror + SignatureInfo" where
  "signMarshal b dat kp prefix =
     (case marshal_HeaderV1 b dat of
        Inl err \<Rightarrow> Inl err
      | Inr encoded \<Rightarrow> b_sign b encoded kp prefix)"

text \<open>The version-1 header that \<open>boxMessageWithKeys\<close> creates from the client header
  and the body hash, before it is signed.\<close>

definition headerV1Of :: "MessageClientHeader \<Rightarrow> Hash \<Rightarrow> HeaderPlaintextV1" where
  "headerV1Of clientHeader bHash =
     \<lparr>hp_Conv = ch_Conv clientHeader,
      hp_TlfName = ch_TlfName clientHeader,
      hp_TlfPublic = ch_TlfPublic clientHeader,
      hp_MessageType = ch_MessageType clientHeader,
      hp_Prev = ch_Prev clientHeader,
      hp_Sender = ch_Sender clientHeader,
      hp_SenderDevice = ch_SenderDevice clientHeader,
      hp_BodyHash = bHash,
      hp_OutboxInfo = ch_OutboxInfo clientHeader,
      hp_OutboxID = ch_OutboxID clientHeader,
      hp_HeaderSignature = None\<rparr>"

definition boxMessageWithKeys :: "'s Boxer \<Rightarrow> MessagePlaintext \<Rightarrow> CryptKey \<Rightarrow> NaclSigningKeyPair
    \<Rightarrow> (nat \<Rightarrow> goerror + bytes) \<Rightarrow> goerror + MessageBoxed" where
  "boxMessageWithKeys b msg key signingKeyPair rnd =
     (let body = \<lparr>bp_MessageBody = pt_MessageBody msg\<rparr>;
          plaintextBody = BodyPlaintext_V1 body
      in case seal b (marshal_Body b) plaintextBody (rnd 0) key of
           Inl err \<Rightarrow> Inl err
         | Inr encryptedBody \<Rightarrow>
             (let bHash = hashV1 b (ed_E encryptedBody);
                  header = headerV1Of (pt_ClientHeader msg) bHash
              in case signMarshal b header signingKeyPair SignaturePrefixChat of
                   Inl err \<Rightarrow> Inl err
                 | Inr sig \<Rightarrow>
                     (let header' = header\<lparr>hp_HeaderSignature := Some sig\<rparr>;
                          plaintextHeader = HeaderPlaintext_V1 header'
                      in case seal b (marshal_Header b) plaintextHeader (rnd 1) key of
                           Inl err \<Rightarrow> Inl err
                         | Inr encryptedHeader \<Rightarrow>
                             Inr \<lparr>boxed_ServerHeader = None,
                                  boxed_ClientHeader = pt_ClientHeader msg,
                                  boxed_HeaderCiphertext = encryptedHeader,
                                  boxed_BodyCiphertext = encryptedBody,
                                  boxed_KeyGeneration = KeyGeneration key\<rparr>)))"

definition latestMerkleRoot :: "'s Boxer \<Rightarrow> goerror + MerkleRoot option" where
  "latestMerkleRoot b =
     (case GetMerkleClient b of
        None \<Rightarrow> Inl (fmt_Errorf ''no MerkleClient available'' [])
      | Some lastRootInfo \<Rightarrow>
          (case lastRootInfo of
             Inl err \<Rightarrow> Inl err
           | Inr merkleRoot \<Rightarrow> Inr merkleRoot))"

text \<open>
  \<open>recentKey\<close> is a pointer. In \<open>BoxMessage\<close> it is nil, the address of the package
  variable \<open>publicCryptKey\<close>, or the address of \<open>key\<close>, the variable of the
  \<open>range\<close> loop. The loop has one variable \<open>key\<close> that every iteration assigns
  (the language rule until Go 1.22, which needs a go.mod that this tree does not
  have), so \<open>&key\<close> is the same address each time and reading through it gives the
  variable's current value.
\<close>

datatype keyptr = nil | addr_publicCryptKey | addr_key

fun load :: "CryptKey \<Rightarrow> keyptr \<Rightarrow> CryptKey option" where
  "load key nil = None"
| "load key addr_publicCryptKey = Some publicCryptKey"
| "load key addr_key = Some key"

fun rangeCryptKeys :: "CryptKey list \<Rightarrow> CryptKey \<Rightarrow> keyptr \<Rightarrow> CryptKey \<times> keyptr" where
  "rangeCryptKeys [] key recentKey = (key, recentKey)"
| "rangeCryptKeys (k # ks) key recentKey =
     (let key' = k
      in rangeCryptKeys ks key'
           (case load key' recentKey of
              None \<Rightarrow> addr_key
            | Some r \<Rightarrow> if KeyGeneration key' > KeyGeneration r then addr_key else recentKey))"

definition BoxMessage :: "'s Boxer \<Rightarrow> MessagePlaintext \<Rightarrow> NaclSigningKeyPair
    \<Rightarrow> (nat \<Rightarrow> goerror + bytes) \<Rightarrow> BoxingError + MessageBoxed" where
  "BoxMessage b msg signingKeyPair rnd =
     (let tlfName = ch_TlfName (pt_ClientHeader msg)
      in if length tlfName = 0 then Inl (NewBoxingError (Literal ''blank TLF name given'') True)
         else case KeyFinder_Find b tlfName (ch_TlfPublic (pt_ClientHeader msg)) of
           Inl err \<Rightarrow> Inl (NewBoxingCryptKeysError err)
         | Inr cres \<Rightarrow>
             (let msg1 = msg\<lparr>pt_ClientHeader :=
                                (pt_ClientHeader msg)\<lparr>ch_TlfName := CanonicalName cres\<rparr>\<rparr>;
                  (key, recentKey) =
                     (if ch_TlfPublic (pt_ClientHeader msg1)
                      then (\<lparr>KeyGeneration = 0, Key = []\<rparr>, addr_publicCryptKey)
                      else rangeCryptKeys (CryptKeys cres) \<lparr>KeyGeneration = 0, Key = []\<rparr> nil)
              in case latestMerkleRoot b of
                   Inl err \<Rightarrow> Inl (NewBoxingError (error_Error err) False)
                 | Inr merkleRoot \<Rightarrow>
                     (let msg2 = msg1\<lparr>pt_ClientHeader :=
                                        (pt_ClientHeader msg1)\<lparr>ch_MerkleRoot := merkleRoot\<rparr>\<rparr>
                      in if length (ch_TlfName (pt_ClientHeader msg2)) = 0
                         then Inl (NewBoxingError
                                (fmt_Sprintf ''blank TLF name received: original: %s canonical: %s''
                                   [ArgString tlfName, ArgString (ch_TlfName (pt_ClientHeader msg2))])
                                True)
                         else case load key recentKey of
                           None \<Rightarrow>
                             Inl (NewBoxingError
                                (fmt_Sprintf ''no key found for tlf %q (public: %v)''
                                   [ArgString tlfName, ArgBool (ch_TlfPublic (pt_ClientHeader msg2))])
                                False)
                         | Some recent \<Rightarrow>
                             (case boxMessageWithKeys b msg2 recent signingKeyPair rnd of
                                Inl err \<Rightarrow> Inl (NewBoxingError (error_Error err) True)
                              | Inr boxed \<Rightarrow> Inr boxed))))"

section \<open>Unboxing\<close>

text \<open>\<open>open\<close>: the nonce must have 24 bytes; it is copied into the nonce array.\<close>

definition "open" :: "'s Boxer \<Rightarrow> EncryptedData \<Rightarrow> CryptKey \<Rightarrow> goerror + bytes" where
  "open b dat key =
     (if length (ed_N dat) \<noteq> NaclDHNonceSize then Inl DecryptBadNonceError
      else case secretbox_Open b (ed_E dat) (ed_N dat) (Key key) of
             None \<Rightarrow> Inl DecryptOpenError
           | Some plain \<Rightarrow> Inr plain)"

text \<open>\<open>verify\<close>: \<open>copy(sigInfo.Sig[:], si.S)\<close> fills a zeroed 64-byte array with at
  most 64 bytes of \<open>si.S\<close>.\<close>

definition verify :: "'s Boxer \<Rightarrow> bytes \<Rightarrow> SignatureInfo \<Rightarrow> string \<Rightarrow> bool" where
  "verify b dat si prefix =
     NaclSigInfo_Verify b (si_V si) prefix (si_K si) dat
       (take NaclSignatureSize (si_S si) @ replicate (NaclSignatureSize - length (si_S si)) 0)"

text \<open>Modelled from the spec: \<open>libkb.SecureByteArrayEq\<close>, the constant-time byte
  compare of package libkb; its value is equality.\<close>

definition SecureByteArrayEq :: "bytes \<Rightarrow> bytes \<Rightarrow> bool" where
  "SecureByteArrayEq a c = (a = c)"

text \<open>\<open>keybase1KeybaseTimeToTime\<close>: \<open>time.Unix(u/1e3, (u%1e3)*1e6)\<close>, with Go's
  truncating division and remainder.\<close>

definition time_Unix :: "int \<Rightarrow> int \<Rightarrow> gotime" where
  "time_Unix sec nsec = sec * 1000000000 + nsec"

definition keybase1KeybaseTimeToTime :: "KeybaseTime \<Rightarrow> gotime" where
  "keybase1KeybaseTimeToTime t1 =
     (let u = kt_Unix t1
      in time_Unix (u sdiv 1000) ((u smod 1000) * 1000000))"

text \<open>Modelled from the spec: the conversions of package gregor1, which is not among the
  sources, between its millisecond clock and \<open>time.Time\<close>; the spec compares the
  revocation time with ctime directly and returns it unchanged.\<close>

definition gregor1_FromTime :: "Time \<Rightarrow> gotime" where
  "gregor1_FromTime t = t * 1000000"

definition gregor1_ToTime :: "gotime \<Rightarrow> Time" where
  "gregor1_ToTime t = t sdiv 1000000"

definition After :: "gotime \<Rightarrow> gotime \<Rightarrow> bool" where
  "After t u = (t > u)"

definition IsZero :: "Time \<Rightarrow> bool" where
  "IsZero t = (t = 0)"

text \<open>\<open>ValidSenderKey\<close> returns \<open>(found, validAtCTime, revoked, unboxErr)\<close>.\<close>

definition ValidSenderKey :: "'s Boxer \<Rightarrow> bytes \<Rightarrow> bytes \<Rightarrow> Time
    \<Rightarrow> bool \<times> bool \<times> Time option \<times> UnboxingError option" where
  "ValidSenderKey b sender key ctime =
     (case UIDFromString b sender of
        Inl err \<Rightarrow> (False, False, None, Some (NewPermanentUnboxingError (Some err)))
      | Inr kbSender \<Rightarrow>
          (let kid = key;
               ctime2 = gregor1_FromTime ctime
           in case GetUPAKLoader b of
                None \<Rightarrow>
                  (False, False, None,
                   Some (NewTransientUnboxingError
                     (Some (fmt_Errorf ''no CachedUserLoader available in context'' []))))
              | Some cachedUserLoader \<Rightarrow>
                  (case CheckKIDForUID cachedUserLoader kbSender kid of
                     Inl err \<Rightarrow> (False, False, None, Some (NewTransientUnboxingError (Some err)))
                   | Inr (found, revokedAt, deleted) \<Rightarrow>
                       if \<not> found then (False, False, None, None)
                       else if deleted then (True, True, Some 0, None)
                       else (case revokedAt of
                               None \<Rightarrow> (True, True, None, None)
                             | Some r \<Rightarrow>
                                 if IsZero (kt_Unix r)
                                 then (True, False, None,
                                       Some (NewPermanentUnboxingError
                                         (Some (fmt_Errorf ''zero clock time on expired key'' []))))
                                 else (let t = keybase1KeybaseTimeToTime r;
                                           revokedTime = gregor1_ToTime t
                                       in (True, After t ctime2, Some revokedTime, None))))))"

record verifyMessageRes =
  vmr_senderDeviceRevokedAt :: "Time option"

text \<open>\<open>verifyMessageHeaderV1\<close>. \<open>*header.HeaderSignature\<close> and
  \<open>msg.ServerHeader.Ctime\<close> read through pointers: a nil pointer there panics.\<close>

definition verifyMessageHeaderV1 :: "'s Boxer \<Rightarrow> HeaderPlaintextV1 \<Rightarrow> MessageBoxed \<Rightarrow> bool
    \<Rightarrow> verifyMessageRes result" where
  "verifyMessageHeaderV1 b header msg skipBodyVerification =
     (if \<not> skipBodyVerification \<and>
         \<not> SecureByteArrayEq (hashV1 b (ed_E (boxed_BodyCiphertext msg))) (hp_BodyHash header)
      then Failure (NewPermanentUnboxingError (Some BodyHashInvalid))
      else
        (let hcopy = header\<lparr>hp_HeaderSignature := None\<rparr>
         in case marshal_HeaderV1 b hcopy of
              Inl err \<Rightarrow> Failure (NewPermanentUnboxingError (Some err))
            | Inr hpack \<Rightarrow>
                (case hp_HeaderSignature header of
                   None \<Rightarrow> Panic
                 | Some headerSignature \<Rightarrow>
                     if \<not> verify b hpack headerSignature SignaturePrefixChat
                     then Failure (NewPermanentUnboxingError
                            (Some (BadSigError ''header signature invalid'')))
                     else
                       (case boxed_ServerHeader msg of
                          None \<Rightarrow> Panic
                        | Some serverHeader \<Rightarrow>
                            (case ValidSenderKey b (hp_Sender header) (si_K headerSignature)
                                    (sh_Ctime serverHeader) of
                               (found, validAtCtime, revoked, Some ierr) \<Rightarrow> Failure ierr
                             | (found, validAtCtime, revoked, None) \<Rightarrow>
                                 if \<not> found
                                 then Failure (NewPermanentUnboxingError
                                        (Some (NoKeyError ''sender key not found'')))
                                 else if \<not> validAtCtime
                                 then Failure (NewPermanentUnboxingError
                                        (Some (NoKeyError
                                           ''key invalid for sender at message ctime'')))
                                 else Success \<lparr>vmr_senderDeviceRevokedAt = revoked\<rparr>)))))"

text \<open>\<open>Version()\<close> of the two unions, and \<open>headerUnsupported\<close> /
  \<open>bodyUnsupported\<close>: the meta info of a reserved version, critical for any other tag.\<close>

fun HeaderPlaintext_Version :: "HeaderPlaintext \<Rightarrow> goerror + int" where
  "HeaderPlaintext_Version (HeaderPlaintext_V1 _) = Inr 1"
| "HeaderPlaintext_Version (HeaderPlaintext_Unsupported v _) = Inr v"
| "HeaderPlaintext_Version (HeaderPlaintext_Unknown v) = Inr v"
| "HeaderPlaintext_Version (HeaderPlaintext_NilVariant v) =
     Inl (errors_New ''unexpected nil value'')"

fun BodyPlaintext_Version :: "BodyPlaintext \<Rightarrow> goerror + int" where
  "BodyPlaintext_Version (BodyPlaintext_V1 _) = Inr 1"
| "BodyPlaintext_Version (BodyPlaintext_Unsupported v _) = Inr v"
| "BodyPlaintext_Version (BodyPlaintext_Unknown v) = Inr v"
| "BodyPlaintext_Version (BodyPlaintext_NilVariant v) =
     Inl (errors_New ''unexpected nil value'')"

fun headerUnsupported :: "HeaderPlaintext \<Rightarrow> HeaderPlaintextUnsupported" where
  "headerUnsupported (HeaderPlaintext_Unsupported v u) = u"
| "headerUnsupported _ = \<lparr>hpu_Crit = True\<rparr>"

fun bodyUnsupported :: "BodyPlaintext \<Rightarrow> BodyPlaintextUnsupported" where
  "bodyUnsupported (BodyPlaintext_Unsupported v u) = u"
| "bodyUnsupported _ = \<lparr>bpu_Crit = True\<rparr>"

definition verifyMessage :: "'s Boxer \<Rightarrow> HeaderPlaintext \<Rightarrow> MessageBoxed \<Rightarrow> bool
    \<Rightarrow> verifyMessageRes result" where
  "verifyMessage b header msg skipBodyVerification =
     (case HeaderPlaintext_Version header of
        Inl err \<Rightarrow> Failure (NewPermanentUnboxingError (Some err))
      | Inr headerVersion \<Rightarrow>
          (case header of
             HeaderPlaintext_V1 v1 \<Rightarrow> verifyMessageHeaderV1 b v1 msg skipBodyVerification
           | _ \<Rightarrow> Failure (NewPermanentUnboxingError
                    (Some (HeaderVersionError headerVersion (headerUnsupported header))))))"

record unboxMessageWithKeyRes =
  messagePlaintext :: MessagePlaintext
  bodyHash :: Hash
  headerHash :: Hash
  headerSignature :: "SignatureInfo option"
  senderDeviceRevokedAt :: "Time option"

text \<open>The client header rebuilt from a version-1 header plaintext. The header plaintext
  has no Merkle root, so that field keeps its zero value.\<close>

definition clientHeaderOfV1 :: "HeaderPlaintextV1 \<Rightarrow> MessageClientHeader" where
  "clientHeaderOfV1 hp =
     \<lparr>ch_Conv = hp_Conv hp,
      ch_TlfName = hp_TlfName hp,
      ch_TlfPublic = hp_TlfPublic hp,
      ch_MessageType = hp_MessageType hp,
      ch_Prev = hp_Prev hp,
      ch_Sender = hp_Sender hp,
      ch_SenderDevice = hp_SenderDevice hp,
      ch_MerkleRoot = None,
      ch_OutboxID = hp_OutboxID hp,
      ch_OutboxInfo = hp_OutboxInfo hp\<rparr>"

text \<open>The body step of \<open>unboxMessageWithKey\<close>: the decoded body and
  \<open>skipBodyVerification\<close>. With an empty ciphertext the variable \<open>body\<close> keeps its
  zero value, a union with tag 0.\<close>

definition decryptBody :: "'s Boxer \<Rightarrow> MessageBoxed \<Rightarrow> MessageServerHeader \<Rightarrow> CryptKey
    \<Rightarrow> UnboxingError + BodyPlaintext \<times> bool" where
  "decryptBody b msg serverHeader key =
     (if length (ed_E (boxed_BodyCiphertext msg)) = 0
      then (if sh_SupersededBy serverHeader = 0
            then Inl (NewPermanentUnboxingError
                   (Some (errors_New ''empty body and not superseded in MessageBoxed'')))
            else Inr (BodyPlaintext_Unknown 0, True))
      else case open b (boxed_BodyCiphertext msg) key of
             Inl err \<Rightarrow> Inl (NewPermanentUnboxingError (Some err))
           | Inr packedBody \<Rightarrow>
               (case unmarshal_Body b packedBody of
                  Inl err \<Rightarrow> Inl (NewPermanentUnboxingError (Some err))
                | Inr body \<Rightarrow> Inr (body, False)))"

definition unboxMessageWithKey :: "'s Boxer \<Rightarrow> MessageBoxed \<Rightarrow> CryptKey
    \<Rightarrow> unboxMessageWithKeyRes result" where
  "unboxMessageWithKey b msg key =
     (case boxed_ServerHeader msg of
        None \<Rightarrow> Failure (NewPermanentUnboxingError
                  (Some (errors_New ''nil ServerHeader in MessageBoxed'')))
      | Some serverHeader \<Rightarrow>
          (let hHash = hashV1 b (ed_E (boxed_HeaderCiphertext msg))
           in case decryptBody b msg serverHeader key of
                Inl uerr \<Rightarrow> Failure uerr
              | Inr (body, skipBodyVerification) \<Rightarrow>
                  (case open b (boxed_HeaderCiphertext msg) key of
                     Inl err \<Rightarrow> Failure (NewPermanentUnboxingError (Some err))
                   | Inr packedHeader \<Rightarrow>
                       (case unmarshal_Header b packedHeader of
                          Inl err \<Rightarrow> Failure (NewPermanentUnboxingError (Some err))
                        | Inr header \<Rightarrow>
                            (case verifyMessage b header msg skipBodyVerification of
                               Panic \<Rightarrow> Panic
                             | Failure ierr \<Rightarrow> Failure ierr
                             | Success validity \<Rightarrow>
                                 (case HeaderPlaintext_Version header of
                                    Inl err \<Rightarrow> Failure (NewPermanentUnboxingError (Some err))
                                  | Inr headerVersion \<Rightarrow>
                                      (case header of
                                         HeaderPlaintext_V1 hp \<Rightarrow>
                                           if skipBodyVerification
                                           then Success
                                             \<lparr>messagePlaintext =
                                                 \<lparr>pt_ClientHeader = clientHeaderOfV1 hp,
                                                  pt_MessageBody = MessageBody_zero\<rparr>,
                                              bodyHash = hp_BodyHash hp,
                                              headerHash = hHash,
                                              headerSignature = hp_HeaderSignature hp,
                                              senderDeviceRevokedAt =
                                                vmr_senderDeviceRevokedAt validity\<rparr>
                                           else
                                             (case BodyPlaintext_Version body of
                                                Inl err \<Rightarrow>
                                                  Failure (NewPermanentUnboxingError (Some err))
                                              | Inr bodyVersion \<Rightarrow>
                                                  (case body of
                                                     BodyPlaintext_V1 v1 \<Rightarrow>
                                                       Success
                                                         \<lparr>messagePlaintext =
                                                             \<lparr>pt_ClientHeader = clientHeaderOfV1 hp,
                                                              pt_MessageBody = bp_MessageBody v1\<rparr>,
                                                          bodyHash = hp_BodyHash hp,
                                                          headerHash = hHash,
                                                          headerSignature = hp_HeaderSignature hp,
                                                          senderDeviceRevokedAt =
                                                            vmr_senderDeviceRevokedAt validity\<rparr>
                                                   | _ \<Rightarrow>
                                                       Failure (NewPermanentUnboxingError
                                                         (Some (BodyVersionError bodyVersion
                                                            (bodyUnsupported body))))))
                                       | _ \<Rightarrow>
                                           Failure (NewPermanentUnboxingError
                                             (Some (HeaderVersionError headerVersion
                                                (headerUnsupported header)))))))))))"

text \<open>\<open>makeErrorMessage\<close> reads \<open>msg.ServerHeader.Ctime\<close> (and the message id through
  \<open>GetMessageID\<close>) without a nil check.\<close>

definition makeErrorMessage :: "'s Boxer \<Rightarrow> MessageBoxed \<Rightarrow> UnboxingError \<Rightarrow> MessageUnboxed result" where
  "makeErrorMessage b msg err =
     (case boxed_ServerHeader msg of
        None \<Rightarrow> Panic
      | Some serverHeader \<Rightarrow>
          Success (MessageUnboxedWithError
            \<lparr>uerr_ErrType = ExportType b err,
             uerr_ErrMsg = UnboxingError_Error err,
             uerr_MessageID = sh_MessageID serverHeader,
             uerr_MessageType = ch_MessageType (boxed_ClientHeader msg),
             uerr_Ctime = sh_Ctime serverHeader\<rparr>))"

text \<open>The sender's name and device: the full lookup, then the name alone, then empty
  strings. The loader is called without a nil check.\<close>

definition getSenderInfoLocal :: "UPAKLoader \<Rightarrow> MessageClientHeader
    \<Rightarrow> goerror + string \<times> string \<times> string" where
  "getSenderInfoLocal loader clientHeader =
     LookupUsernameAndDevice loader (ch_Sender clientHeader) (ch_SenderDevice clientHeader)"

definition getSenderUsername :: "UPAKLoader \<Rightarrow> MessageClientHeader \<Rightarrow> goerror + string" where
  "getSenderUsername loader clientHeader = LookupUsername loader (ch_Sender clientHeader)"

definition senderInfo :: "UPAKLoader \<Rightarrow> MessageClientHeader \<Rightarrow> string \<times> string \<times> string" where
  "senderInfo loader clientHeader =
     (case getSenderInfoLocal loader clientHeader of
        Inr info \<Rightarrow> info
      | Inl err \<Rightarrow>
          (case getSenderUsername loader clientHeader of
             Inr username \<Rightarrow> (username, [], [])
           | Inl err' \<Rightarrow> ([], [], [])))"

text \<open>The loop over the key list: the first key of the envelope's generation.\<close>

fun matchKeyLoop :: "CryptKey list \<Rightarrow> int \<Rightarrow> CryptKey option" where
  "matchKeyLoop [] gen = None"
| "matchKeyLoop (key # keys) gen =
     (if KeyGeneration key = gen then Some key else matchKeyLoop keys gen)"

text \<open>The loop over the prev pointers. On a checker error it returns
  \<open>NewPermanentUnboxingError(replayErr)\<close>, with the variable \<open>replayErr\<close> of the
  body hash check, not the \<open>prevPtrErr\<close> it has just received.\<close>

fun prevLoop :: "'s Boxer \<Rightarrow> MessagePreviousPointer list \<Rightarrow> ConversationID \<Rightarrow> goerror option
    \<Rightarrow> 's \<Rightarrow> UnboxingError option \<times> 's" where
  "prevLoop b [] convID replayErr s = (None, s)"
| "prevLoop b (prevPtr # rest) convID replayErr s =
     (case prevChecker b (prev_Id prevPtr) convID (prev_Hash prevPtr) s of
        (Some prevPtrErr, s') \<Rightarrow> (Some (NewPermanentUnboxingError replayErr), s')
      | (None, s') \<Rightarrow> prevLoop b rest convID replayErr s')"

definition UnboxMessage :: "'s Boxer \<Rightarrow> MessageBoxed \<Rightarrow> ConversationID \<Rightarrow> bytes option \<Rightarrow> 's
    \<Rightarrow> MessageUnboxed result \<times> 's" where
  "UnboxMessage b boxed convID finalizeInfo s =
     (let tlfName = TLFNameExpanded b (boxed_ClientHeader boxed) finalizeInfo;
          tlfPublic = ch_TlfPublic (boxed_ClientHeader boxed)
      in case KeyFinder_Find b tlfName tlfPublic of
           Inl err \<Rightarrow> (Failure (NewTransientUnboxingError (Some err)), s)
         | Inr keys \<Rightarrow>
             (case matchKeyLoop (CryptKeys keys) (boxed_KeyGeneration boxed) of
                None \<Rightarrow>
                  (Failure (NewTransientUnboxingError
                     (Some (fmt_Errorf ''no key found for generation %d''
                        [ArgInt (boxed_KeyGeneration boxed)]))), s)
              | Some matchKey \<Rightarrow>
                  (case unboxMessageWithKey b boxed matchKey of
                     Panic \<Rightarrow> (Panic, s)
                   | Failure ierr \<Rightarrow>
                       (case boxed_ServerHeader boxed of
                          None \<Rightarrow> (Panic, s)
                        | Some serverHeader \<Rightarrow>
                            if IsPermanent ierr then (makeErrorMessage b boxed ierr, s)
                            else (Failure ierr, s))
                   | Success umwkr \<Rightarrow>
                       (let pt = messagePlaintext umwkr
                        in case GetUPAKLoader b of
                             None \<Rightarrow> (Panic, s)
                           | Some loader \<Rightarrow>
                               (let (username, deviceName, deviceType) =
                                      senderInfo loader (pt_ClientHeader pt)
                                in case boxed_ServerHeader boxed of
                                     None \<Rightarrow> (Panic, s)
                                   | Some serverHeader \<Rightarrow>
                                       (case bodyHashChecker b (bodyHash umwkr)
                                               (sh_MessageID serverHeader) convID s of
                                          (Some replayErr, s1) \<Rightarrow>
                                            (Failure (NewPermanentUnboxingError (Some replayErr)), s1)
                                        | (None, s1) \<Rightarrow>
                                            (let replayErr = None
                                             in case prevChecker b (sh_MessageID serverHeader) convID
                                                     (headerHash umwkr) s1 of
                                                  (Some prevPtrErr, s2) \<Rightarrow>
                                                    (Failure (NewPermanentUnboxingError replayErr), s2)
                                                | (None, s2) \<Rightarrow>
                                                    (case prevLoop b (ch_Prev (pt_ClientHeader pt))
                                                            convID replayErr s2 of
                                                       (Some uerr, s3) \<Rightarrow> (Failure uerr, s3)
                                                     | (None, s3) \<Rightarrow>
                                                         (Success (MessageUnboxedWithValid
                                                            \<lparr>valid_ClientHeader = pt_ClientHeader pt,
                                                             valid_ServerHeader = serverHeader,
                                                             valid_MessageBody = pt_MessageBody pt,
                                                             valid_SenderUsername = username,
                                                             valid_SenderDeviceName = deviceName,
                                                             valid_SenderDeviceType = deviceType,
                                                             valid_BodyHash = bodyHash umwkr,
                                                             valid_HeaderHash = headerHash umwkr,
                                                             valid_HeaderSignature =
                                                               headerSignature umwkr,
                                                             valid_SenderDeviceRevokedAt =
                                                               senderDeviceRevokedAt umwkr\<rparr>),
                                                          s3)))))))))"

section \<open>Test doubles\<close>

text \<open>
  Fakes for the collaborators, in the manner of the package's tests: the no-op checkers of
  the source, a codec that knows one value, a cipher that prefixes the key, a signer whose
  signature is the payload length repeated, and a hash that takes the first four bytes.
\<close>

definition NoopBodyHashChecker :: "Hash \<Rightarrow> MessageID \<Rightarrow> ConversationID \<Rightarrow> unit \<Rightarrow> goerror option \<times> unit" where
  "NoopBodyHashChecker h m c s = (None, s)"

definition NoopPrevChecker :: "MessageID \<Rightarrow> ConversationID \<Rightarrow> Hash \<Rightarrow> unit \<Rightarrow> goerror option \<times> unit" where
  "NoopPrevChecker m c h s = (None, s)"

definition enc1 :: "'a \<Rightarrow> bytes \<Rightarrow> 'a \<Rightarrow> goerror + bytes" where
  "enc1 v code x = (if x = v then Inr code else Inl (ExternalError ''cannot encode''))"

definition dec1 :: "'a \<Rightarrow> bytes \<Rightarrow> bytes \<Rightarrow> goerror + 'a" where
  "dec1 v code bs = (if bs = code then Inr v else Inl (ExternalError ''cannot decode''))"

definition test_Seal :: "bytes \<Rightarrow> bytes \<Rightarrow> bytes \<Rightarrow> bytes" where
  "test_Seal m n k = k @ m"

definition test_Open :: "bytes \<Rightarrow> bytes \<Rightarrow> bytes \<Rightarrow> bytes option" where
  "test_Open c n k = (if take (length k) c = k then Some (drop (length k) c) else None)"

definition test_kid :: bytes where
  "test_kid = [1, 2, 3]"

definition test_keypair :: NaclSigningKeyPair where
  "test_keypair =
     \<lparr>SignV2 = (\<lambda>msg prefix.
        Inr \<lparr>nsi_Version = 2,
             nsi_Sig = replicate NaclSignatureSize (of_nat (length msg)),
             nsi_Kid = test_kid\<rparr>)\<rparr>"

definition test_Verify :: "int \<Rightarrow> string \<Rightarrow> bytes \<Rightarrow> bytes \<Rightarrow> bytes \<Rightarrow> bool" where
  "test_Verify v prefix kid payload sig =
     (v = 2 \<and> kid = test_kid \<and> sig = replicate NaclSignatureSize (of_nat (length payload)))"

definition test_loader :: UPAKLoader where
  "test_loader =
     \<lparr>LookupUsernameAndDevice = (\<lambda>uid did. Inr (''alice'', ''laptop'', ''desktop'')),
      LookupUsername = (\<lambda>uid. Inr ''alice''),
      CheckKIDForUID = (\<lambda>uid kid. Inr (kid = test_kid, None, False))\<rparr>"

definition test_key1 :: CryptKey where
  "test_key1 = \<lparr>KeyGeneration = 1, Key = replicate NaclDHKeySecretSize 1\<rparr>"

definition test_key2 :: CryptKey where
  "test_key2 = \<lparr>KeyGeneration = 2, Key = replicate NaclDHKeySecretSize 2\<rparr>"

definition test_clientHeader :: MessageClientHeader where
  "test_clientHeader =
     \<lparr>ch_Conv = [1],
      ch_TlfName = ''bob,alice'',
      ch_TlfPublic = False,
      ch_MessageType = 1,
      ch_Prev = [\<lparr>prev_Id = 3, prev_Hash = [9]\<rparr>],
      ch_Sender = [5],
      ch_SenderDevice = [6],
      ch_MerkleRoot = None,
      ch_OutboxID = None,
      ch_OutboxInfo = None\<rparr>"

definition test_msg :: MessagePlaintext where
  "test_msg = \<lparr>pt_ClientHeader = test_clientHeader, pt_MessageBody = MessageBody 1 [104, 105]\<rparr>"

definition test_body :: BodyPlaintext where
  "test_body = BodyPlaintext_V1 \<lparr>bp_MessageBody = MessageBody 1 [104, 105]\<rparr>"

definition test_rnd :: "nat \<Rightarrow> goerror + bytes" where
  "test_rnd i = Inr (replicate NaclDHNonceSize (of_nat i))"

text \<open>The signed header that boxing \<open>test_msg\<close> under key \<open>k\<close> produces with the
  fakes, for a TLF that is public or not.\<close>

definition test_headerV1 :: "bool \<Rightarrow> CryptKey \<Rightarrow> HeaderPlaintextV1" where
  "test_headerV1 pub k =
     \<lparr>hp_Conv = [1],
      hp_TlfName = ''alice,bob'',
      hp_TlfPublic = pub,
      hp_MessageType = 1,
      hp_Prev = [\<lparr>prev_Id = 3, prev_Hash = [9]\<rparr>],
      hp_Sender = [5],
      hp_SenderDevice = [6],
      hp_BodyHash = take 4 (Key k @ [1]),
      hp_OutboxInfo = None,
      hp_OutboxID = None,
      hp_HeaderSignature =
        Some \<lparr>si_V = 2, si_S = replicate NaclSignatureSize 4, si_K = test_kid\<rparr>\<rparr>"

text \<open>The boxer of the tests: \<open>keys\<close> is what the key finder returns for any name,
  \<open>header\<close> the one header the codec knows.\<close>

definition test_boxer :: "CryptKey list \<Rightarrow> HeaderPlaintext \<Rightarrow> unit Boxer" where
  "test_boxer keys header =
     \<lparr>hashV1 = take 4,
      b_sign = sign,
      bodyHashChecker = NoopBodyHashChecker,
      prevChecker = NoopPrevChecker,
      KeyFinder_Find = (\<lambda>name pub. Inr \<lparr>CanonicalName = ''alice,bob'', CryptKeys = keys\<rparr>),
      GetUPAKLoader = Some test_loader,
      GetMerkleClient = Some (Inr None),
      TLFNameExpanded = (\<lambda>h fi. ch_TlfName h),
      UIDFromString = (\<lambda>sender. Inr ''uid''),
      marshal_Body = enc1 test_body [1],
      marshal_HeaderV1 = (\<lambda>h. Inr (hp_BodyHash h)),
      marshal_Header = enc1 header [2],
      unmarshal_Body = dec1 test_body [1],
      unmarshal_Header = dec1 header [2],
      secretbox_Seal = test_Seal,
      secretbox_Open = test_Open,
      NaclSigInfo_Verify = test_Verify,
      ExportType = (\<lambda>e. if IsPermanent e then Misc else Ephemeral)\<rparr>"

text \<open>The envelope that boxing \<open>test_msg\<close> under key \<open>k\<close> gives with the fakes.\<close>

definition test_boxed :: "bool \<Rightarrow> CryptKey \<Rightarrow> MessageBoxed" where
  "test_boxed pub k =
     \<lparr>boxed_ServerHeader = None,
      boxed_ClientHeader = test_clientHeader\<lparr>ch_TlfName := ''alice,bob'', ch_TlfPublic := pub\<rparr>,
      boxed_HeaderCiphertext =
        \<lparr>ed_V = 1, ed_E = Key k @ [2], ed_N = replicate NaclDHNonceSize 1\<rparr>,
      boxed_BodyCiphertext =
        \<lparr>ed_V = 1, ed_E = Key k @ [1], ed_N = replicate NaclDHNonceSize 0\<rparr>,
      boxed_KeyGeneration = KeyGeneration k\<rparr>"

definition test_serverHeader :: MessageServerHeader where
  "test_serverHeader = \<lparr>sh_MessageID = 7, sh_SupersededBy = 0, sh_Ctime = 5000\<rparr>"

text \<open>A prev checker that reports a mismatch for one message id, a user loader that
  reports a given outcome for the key check, the boxer for \<open>test_msg\<close> under
  \<open>test_key1\<close>, and the envelope as the server returns it.\<close>

definition test_rejectPrev :: "MessageID \<Rightarrow> MessageID \<Rightarrow> ConversationID \<Rightarrow> Hash \<Rightarrow> unit
    \<Rightarrow> goerror option \<times> unit" where
  "test_rejectPrev bad m c h s =
     (if m = bad then Some (ExternalError ''header hash mismatch'') else None, s)"

definition test_loaderWith :: "(goerror + bool \<times> KeybaseTime option \<times> bool) \<Rightarrow> UPAKLoader" where
  "test_loaderWith outcome = test_loader\<lparr>CheckKIDForUID := (\<lambda>uid kid. outcome)\<rparr>"

definition test_boxer1 :: "unit Boxer" where
  "test_boxer1 = test_boxer [test_key1] (HeaderPlaintext_V1 (test_headerV1 False test_key1))"

definition test_received :: "MessageID \<Rightarrow> MessageBoxed" where
  "test_received supersededBy =
     (test_boxed False test_key1)
       \<lparr>boxed_ServerHeader := Some (test_serverHeader\<lparr>sh_SupersededBy := supersededBy\<rparr>)\<rparr>"

text \<open>The boxer whose user loader reports a given outcome of the key check, and the
  received envelope with its body removed (a tombstone).\<close>

definition test_boxerKID :: "(goerror + bool \<times> KeybaseTime option \<times> bool) \<Rightarrow> unit Boxer" where
  "test_boxerKID outcome = test_boxer1\<lparr>GetUPAKLoader := Some (test_loaderWith outcome)\<rparr>"

definition test_tombstone :: "MessageID \<Rightarrow> MessageBoxed" where
  "test_tombstone supersededBy =
     (test_received supersededBy)\<lparr>boxed_BodyCiphertext := \<lparr>ed_V = 1, ed_E = [], ed_N = []\<rparr>\<rparr>"

text \<open>A boxer whose key finder has a newer key by the time of unboxing: one key for the
  name as typed, two for the canonical name.\<close>

definition test_boxerGrown :: "unit Boxer" where
  "test_boxerGrown =
     test_boxer1\<lparr>KeyFinder_Find := (\<lambda>name pub.
       Inr \<lparr>CanonicalName = ''alice,bob'',
            CryptKeys = (if name = ''bob,alice'' then [test_key1] else [test_key1, test_key2])\<rparr>)\<rparr>"

text \<open>The record that unboxing \<open>test_received\<close> gives with the fakes.\<close>

definition test_valid :: "MessageServerHeader \<Rightarrow> MessageUnboxedValid" where
  "test_valid sh =
     \<lparr>valid_ClientHeader = test_clientHeader\<lparr>ch_TlfName := ''alice,bob''\<rparr>,
      valid_ServerHeader = sh,
      valid_MessageBody = MessageBody 1 [104, 105],
      valid_SenderUsername = ''alice'',
      valid_SenderDeviceName = ''laptop'',
      valid_SenderDeviceType = ''desktop'',
      valid_BodyHash = take 4 (Key test_key1 @ [1]),
      valid_HeaderHash = take 4 (Key test_key1 @ [2]),
      valid_HeaderSignature =
        Some \<lparr>si_V = 2, si_S = replicate NaclSignatureSize 4, si_K = test_kid\<rparr>,
      valid_SenderDeviceRevokedAt = None\<rparr>"

section \<open>Properties\<close>

subsection \<open>The loops\<close>

text \<open>Once \<open>recentKey\<close> holds the address of the loop variable, the comparison in the
  loop reads the variable against itself and never succeeds again; after the loop the
  variable holds the last key of the list.\<close>

lemma rangeCryptKeys_addr_key:
  "rangeCryptKeys ks key addr_key = (if ks = [] then key else last ks, addr_key)"
  by (induction ks arbitrary: key) simp_all

lemma rangeCryptKeys_nil:
  "rangeCryptKeys ks key nil = (if ks = [] then (key, nil) else (last ks, addr_key))"
  by (cases ks) (simp_all add: rangeCryptKeys_addr_key)

lemma matchKeyLoop_last:
  "ks \<noteq> [] \<Longrightarrow> distinct (map KeyGeneration ks) \<Longrightarrow>
   matchKeyLoop ks (KeyGeneration (last ks)) = Some (last ks)"
  by (induction ks) auto

lemma matchKeyLoop_Some:
  "matchKeyLoop ks gen = Some k \<Longrightarrow> k \<in> set ks \<and> KeyGeneration k = gen"
  by (induction ks) (auto split: if_splits)

subsection \<open>What a successful boxing went through\<close>

lemma clientHeaderOfV1_headerV1Of:
  "clientHeaderOfV1 ((headerV1Of h bh)\<lparr>hp_HeaderSignature := sg\<rparr>) = h\<lparr>ch_MerkleRoot := None\<rparr>"
  by (simp add: clientHeaderOfV1_def headerV1Of_def)

lemma headerV1Of_unsigned:
  "(headerV1Of h bh)\<lparr>hp_HeaderSignature := None\<rparr> = headerV1Of h bh"
  by (simp add: headerV1Of_def)

lemma boxMessageWithKeys_InrD:
  assumes "boxMessageWithKeys b msg key S rnd = Inr boxed"
  obtains pb n0 hm sg ph n1 where
    "marshal_Body b (BodyPlaintext_V1 \<lparr>bp_MessageBody = pt_MessageBody msg\<rparr>) = Inr pb"
    "rnd 0 = Inr n0"
    "marshal_HeaderV1 b
       (headerV1Of (pt_ClientHeader msg) (hashV1 b (secretbox_Seal b pb n0 (Key key)))) = Inr hm"
    "b_sign b hm S SignaturePrefixChat = Inr sg"
    "marshal_Header b (HeaderPlaintext_V1
        ((headerV1Of (pt_ClientHeader msg) (hashV1 b (secretbox_Seal b pb n0 (Key key))))
           \<lparr>hp_HeaderSignature := Some sg\<rparr>)) = Inr ph"
    "rnd 1 = Inr n1"
    "boxed = \<lparr>boxed_ServerHeader = None,
              boxed_ClientHeader = pt_ClientHeader msg,
              boxed_HeaderCiphertext =
                \<lparr>ed_V = 1, ed_E = secretbox_Seal b ph n1 (Key key), ed_N = n1\<rparr>,
              boxed_BodyCiphertext =
                \<lparr>ed_V = 1, ed_E = secretbox_Seal b pb n0 (Key key), ed_N = n0\<rparr>,
              boxed_KeyGeneration = KeyGeneration key\<rparr>"
  using assms
  by (auto simp: boxMessageWithKeys_def seal_def signMarshal_def Let_def split: sum.splits)

lemma BoxMessage_InrD:
  assumes "BoxMessage b msg S rnd = Inr boxed"
  obtains cres mr recent where
    "ch_TlfName (pt_ClientHeader msg) \<noteq> []"
    "KeyFinder_Find b (ch_TlfName (pt_ClientHeader msg)) (ch_TlfPublic (pt_ClientHeader msg))
       = Inr cres"
    "latestMerkleRoot b = Inr mr"
    "CanonicalName cres \<noteq> []"
    "ch_TlfPublic (pt_ClientHeader msg) \<or> CryptKeys cres \<noteq> []"
    "recent = (if ch_TlfPublic (pt_ClientHeader msg) then publicCryptKey
               else last (CryptKeys cres))"
    "boxMessageWithKeys b
       (msg\<lparr>pt_ClientHeader :=
              (pt_ClientHeader msg)\<lparr>ch_TlfName := CanonicalName cres, ch_MerkleRoot := mr\<rparr>\<rparr>)
       recent S rnd = Inr boxed"
  using assms
  by (auto simp: BoxMessage_def Let_def rangeCryptKeys_nil
      split: sum.splits if_splits option.splits)

lemma BoxMessage_ClientHeader:
  assumes "BoxMessage b msg S rnd = Inr boxed"
    and "KeyFinder_Find b (ch_TlfName (pt_ClientHeader msg)) (ch_TlfPublic (pt_ClientHeader msg))
           = Inr cres"
  shows "\<exists>mr. boxed_ClientHeader boxed
           = (pt_ClientHeader msg)\<lparr>ch_TlfName := CanonicalName cres, ch_MerkleRoot := mr\<rparr>"
proof (rule BoxMessage_InrD [OF assms(1)])
  fix cres0 :: GetTLFCryptKeysRes and mr recent
  assume find0: "KeyFinder_Find b (ch_TlfName (pt_ClientHeader msg))
                   (ch_TlfPublic (pt_ClientHeader msg)) = Inr cres0"
    and bmk: "boxMessageWithKeys b
       (msg\<lparr>pt_ClientHeader :=
              (pt_ClientHeader msg)\<lparr>ch_TlfName := CanonicalName cres0, ch_MerkleRoot := mr\<rparr>\<rparr>)
       recent S rnd = Inr boxed"
  from find0 assms(2) have eq: "cres0 = cres" by simp
  show ?thesis
  proof (rule boxMessageWithKeys_InrD [OF bmk])
    fix pb n0 hm sg ph n1
    assume boxed: "boxed = \<lparr>boxed_ServerHeader = None,
              boxed_ClientHeader = pt_ClientHeader (msg\<lparr>pt_ClientHeader :=
                (pt_ClientHeader msg)\<lparr>ch_TlfName := CanonicalName cres0, ch_MerkleRoot := mr\<rparr>\<rparr>),
              boxed_HeaderCiphertext =
                \<lparr>ed_V = 1, ed_E = secretbox_Seal b ph n1 (Key recent), ed_N = n1\<rparr>,
              boxed_BodyCiphertext =
                \<lparr>ed_V = 1, ed_E = secretbox_Seal b pb n0 (Key recent), ed_N = n0\<rparr>,
              boxed_KeyGeneration = KeyGeneration recent\<rparr>"
    have "boxed_ClientHeader boxed
           = (pt_ClientHeader msg)\<lparr>ch_TlfName := CanonicalName cres, ch_MerkleRoot := mr\<rparr>"
      by (subst boxed) (simp add: eq)
    then show ?thesis by blast
  qed
qed

text \<open>The envelope is what \<open>boxMessageWithKeys\<close> gives, under the key that
  \<open>BoxMessage\<close> selected, for the plaintext with the envelope's client header.\<close>

lemma BoxMessage_sealed:
  assumes "BoxMessage b msg S rnd = Inr boxed"
  shows "\<exists>k. boxMessageWithKeys b (msg\<lparr>pt_ClientHeader := boxed_ClientHeader boxed\<rparr>) k S rnd
           = Inr boxed"
proof (rule BoxMessage_InrD [OF assms])
  fix cres :: GetTLFCryptKeysRes and mr recent
  assume bmk: "boxMessageWithKeys b
       (msg\<lparr>pt_ClientHeader :=
              (pt_ClientHeader msg)\<lparr>ch_TlfName := CanonicalName cres, ch_MerkleRoot := mr\<rparr>\<rparr>)
       recent S rnd = Inr boxed"
  have "boxed_ClientHeader boxed
          = (pt_ClientHeader msg)\<lparr>ch_TlfName := CanonicalName cres, ch_MerkleRoot := mr\<rparr>"
  proof (rule boxMessageWithKeys_InrD [OF bmk])
    fix pb n0 hm sg ph n1
    assume boxed: "boxed = \<lparr>boxed_ServerHeader = None,
              boxed_ClientHeader = pt_ClientHeader (msg\<lparr>pt_ClientHeader :=
                (pt_ClientHeader msg)\<lparr>ch_TlfName := CanonicalName cres, ch_MerkleRoot := mr\<rparr>\<rparr>),
              boxed_HeaderCiphertext =
                \<lparr>ed_V = 1, ed_E = secretbox_Seal b ph n1 (Key recent), ed_N = n1\<rparr>,
              boxed_BodyCiphertext =
                \<lparr>ed_V = 1, ed_E = secretbox_Seal b pb n0 (Key recent), ed_N = n0\<rparr>,
              boxed_KeyGeneration = KeyGeneration recent\<rparr>"
    show ?thesis by (subst boxed) simp
  qed
  with bmk have "boxMessageWithKeys b (msg\<lparr>pt_ClientHeader := boxed_ClientHeader boxed\<rparr>)
                   recent S rnd = Inr boxed"
    by simp
  then show ?thesis by blast
qed

subsection \<open>The steps of unboxing\<close>

lemma UnboxMessage_Find_fails:
  assumes "KeyFinder_Find b (TLFNameExpanded b (boxed_ClientHeader boxed) fi)
             (ch_TlfPublic (boxed_ClientHeader boxed)) = Inl err"
  shows "UnboxMessage b boxed convID fi s = (Failure (NewTransientUnboxingError (Some err)), s)"
  using assms by (simp add: UnboxMessage_def)

lemma UnboxMessage_no_key:
  assumes "KeyFinder_Find b (TLFNameExpanded b (boxed_ClientHeader boxed) fi)
             (ch_TlfPublic (boxed_ClientHeader boxed)) = Inr keys"
    and "matchKeyLoop (CryptKeys keys) (boxed_KeyGeneration boxed) = None"
  shows "UnboxMessage b boxed convID fi s =
           (Failure (NewTransientUnboxingError (Some (fmt_Errorf ''no key found for generation %d''
              [ArgInt (boxed_KeyGeneration boxed)]))), s)"
  using assms by (simp add: UnboxMessage_def)

lemma UnboxMessage_nil_ServerHeader:
  assumes "KeyFinder_Find b (TLFNameExpanded b (boxed_ClientHeader boxed) fi)
             (ch_TlfPublic (boxed_ClientHeader boxed)) = Inr keys"
    and "matchKeyLoop (CryptKeys keys) (boxed_KeyGeneration boxed) = Some k"
    and "boxed_ServerHeader boxed = None"
  shows "UnboxMessage b boxed convID fi s = (Panic, s)"
  using assms by (simp add: UnboxMessage_def unboxMessageWithKey_def)

lemma UnboxMessage_Failure:
  assumes "KeyFinder_Find b (TLFNameExpanded b (boxed_ClientHeader boxed) fi)
             (ch_TlfPublic (boxed_ClientHeader boxed)) = Inr keys"
    and "matchKeyLoop (CryptKeys keys) (boxed_KeyGeneration boxed) = Some k"
    and "boxed_ServerHeader boxed = Some sh"
    and "unboxMessageWithKey b boxed k = Failure ierr"
  shows "UnboxMessage b boxed convID fi s =
           (if IsPermanent ierr
            then Success (MessageUnboxedWithError
                   \<lparr>uerr_ErrType = ExportType b ierr,
                    uerr_ErrMsg = UnboxingError_Error ierr,
                    uerr_MessageID = sh_MessageID sh,
                    uerr_MessageType = ch_MessageType (boxed_ClientHeader boxed),
                    uerr_Ctime = sh_Ctime sh\<rparr>)
            else Failure ierr, s)"
  using assms by (simp add: UnboxMessage_def makeErrorMessage_def)

lemma UnboxMessage_Panic:
  assumes "KeyFinder_Find b (TLFNameExpanded b (boxed_ClientHeader boxed) fi)
             (ch_TlfPublic (boxed_ClientHeader boxed)) = Inr keys"
    and "matchKeyLoop (CryptKeys keys) (boxed_KeyGeneration boxed) = Some k"
    and "unboxMessageWithKey b boxed k = Panic"
  shows "UnboxMessage b boxed convID fi s = (Panic, s)"
  using assms by (simp add: UnboxMessage_def)

lemma UnboxMessage_Success:
  assumes "KeyFinder_Find b (TLFNameExpanded b (boxed_ClientHeader boxed) fi)
             (ch_TlfPublic (boxed_ClientHeader boxed)) = Inr keys"
    and "matchKeyLoop (CryptKeys keys) (boxed_KeyGeneration boxed) = Some k"
    and "boxed_ServerHeader boxed = Some sh"
    and "unboxMessageWithKey b boxed k = Success umwkr"
    and "GetUPAKLoader b = Some loader"
    and "bodyHashChecker b (bodyHash umwkr) (sh_MessageID sh) convID s = (None, s1)"
    and "prevChecker b (sh_MessageID sh) convID (headerHash umwkr) s1 = (None, s2)"
    and "prevLoop b (ch_Prev (pt_ClientHeader (messagePlaintext umwkr))) convID None s2 = (None, s3)"
  shows "UnboxMessage b boxed convID fi s =
           (Success (MessageUnboxedWithValid
              \<lparr>valid_ClientHeader = pt_ClientHeader (messagePlaintext umwkr),
               valid_ServerHeader = sh,
               valid_MessageBody = pt_MessageBody (messagePlaintext umwkr),
               valid_SenderUsername = fst (senderInfo loader (pt_ClientHeader (messagePlaintext umwkr))),
               valid_SenderDeviceName = fst (snd (senderInfo loader (pt_ClientHeader (messagePlaintext umwkr)))),
               valid_SenderDeviceType = snd (snd (senderInfo loader (pt_ClientHeader (messagePlaintext umwkr)))),
               valid_BodyHash = bodyHash umwkr,
               valid_HeaderHash = headerHash umwkr,
               valid_HeaderSignature = headerSignature umwkr,
               valid_SenderDeviceRevokedAt = senderDeviceRevokedAt umwkr\<rparr>), s3)"
  using assms by (simp add: UnboxMessage_def Let_def split_beta)

lemma unboxMessageWithKey_V1:
  assumes "boxed_ServerHeader msg = Some sh"
    and "decryptBody b msg sh k = Inr (body, skip)"
    and "skip \<or> body = BodyPlaintext_V1 v1"
    and "open b (boxed_HeaderCiphertext msg) k = Inr ph"
    and "unmarshal_Header b ph = Inr (HeaderPlaintext_V1 hp)"
  shows "unboxMessageWithKey b msg k =
           (case verifyMessageHeaderV1 b hp msg skip of
              Panic \<Rightarrow> Panic
            | Failure ierr \<Rightarrow> Failure ierr
            | Success validity \<Rightarrow>
                Success \<lparr>messagePlaintext =
                           \<lparr>pt_ClientHeader = clientHeaderOfV1 hp,
                            pt_MessageBody = (if skip then MessageBody_zero else bp_MessageBody v1)\<rparr>,
                         bodyHash = hp_BodyHash hp,
                         headerHash = hashV1 b (ed_E (boxed_HeaderCiphertext msg)),
                         headerSignature = hp_HeaderSignature hp,
                         senderDeviceRevokedAt = vmr_senderDeviceRevokedAt validity\<rparr>)"
  using assms
  by (auto simp: unboxMessageWithKey_def verifyMessage_def Let_def split: result.splits)

lemma verifyMessageHeaderV1_checked:
  assumes "boxed_ServerHeader msg = Some sh"
    and "skip \<or> hashV1 b (ed_E (boxed_BodyCiphertext msg)) = hp_BodyHash header"
    and "marshal_HeaderV1 b (header\<lparr>hp_HeaderSignature := None\<rparr>) = Inr hpack"
    and "hp_HeaderSignature header = Some sg"
    and "verify b hpack sg SignaturePrefixChat"
  shows "verifyMessageHeaderV1 b header msg skip =
           (case ValidSenderKey b (hp_Sender header) (si_K sg) (sh_Ctime sh) of
              (found, validAtCtime, revoked, Some ierr) \<Rightarrow> Failure ierr
            | (found, validAtCtime, revoked, None) \<Rightarrow>
                if \<not> found
                then Failure (NewPermanentUnboxingError (Some (NoKeyError ''sender key not found'')))
                else if \<not> validAtCtime
                then Failure (NewPermanentUnboxingError
                       (Some (NoKeyError ''key invalid for sender at message ctime'')))
                else Success \<lparr>vmr_senderDeviceRevokedAt = revoked\<rparr>)"
  using assms
  by (auto simp: verifyMessageHeaderV1_def SecureByteArrayEq_def Let_def)

lemma keybase1KeybaseTimeToTime_eq:
  "keybase1KeybaseTimeToTime r = kt_Unix r * 1000000"
proof -
  have "kt_Unix r sdiv 1000 * 1000 + kt_Unix r smod 1000 = kt_Unix r"
    by (rule sdiv_mult_smod_eq)
  then have "(kt_Unix r sdiv 1000 * 1000 + kt_Unix r smod 1000) * 1000000 = kt_Unix r * 1000000"
    by simp
  then show ?thesis
    by (simp add: keybase1KeybaseTimeToTime_def time_Unix_def Let_def algebra_simps)
qed

lemma revoked_time_roundtrip:
  "gregor1_ToTime (keybase1KeybaseTimeToTime r) = kt_Unix r"
  by (simp add: keybase1KeybaseTimeToTime_eq gregor1_ToTime_def signed_divide_int_def
      abs_mult sgn_mult mult_sgn_abs)

lemma revoked_After:
  "After (keybase1KeybaseTimeToTime r) (gregor1_FromTime ctime) \<longleftrightarrow> ctime < kt_Unix r"
  by (simp add: keybase1KeybaseTimeToTime_eq gregor1_FromTime_def After_def)

lemma ValidSenderKey_revoked:
  assumes "UIDFromString b sender = Inr uid" "GetUPAKLoader b = Some loader"
    and "CheckKIDForUID loader uid kid = Inr (True, Some r, False)" "kt_Unix r \<noteq> 0"
  shows "ValidSenderKey b sender kid ctime = (True, ctime < kt_Unix r, Some (kt_Unix r), None)"
  using assms
  by (simp add: ValidSenderKey_def Let_def IsZero_def revoked_time_roundtrip revoked_After)

lemma ValidSenderKey_found_loader:
  assumes "ValidSenderKey b sender kid ctime = (True, v, r, e)"
  obtains loader where "GetUPAKLoader b = Some loader"
  using assms by (auto simp: ValidSenderKey_def Let_def split: sum.splits option.splits)

lemma UnboxMessage_verify_Failure:
  assumes keys: "KeyFinder_Find b (TLFNameExpanded b (boxed_ClientHeader boxed) fi)
                   (ch_TlfPublic (boxed_ClientHeader boxed)) = Inr keys"
    and key: "matchKeyLoop (CryptKeys keys) (boxed_KeyGeneration boxed) = Some k"
    and sh: "boxed_ServerHeader boxed = Some sh"
    and body: "decryptBody b boxed sh k = Inr (body, skip)"
    and v1: "skip \<or> body = BodyPlaintext_V1 v1"
    and oh: "open b (boxed_HeaderCiphertext boxed) k = Inr ph"
    and uh: "unmarshal_Header b ph = Inr (HeaderPlaintext_V1 hp)"
    and vm: "verifyMessageHeaderV1 b hp boxed skip = Failure ierr"
  shows "UnboxMessage b boxed convID fi s =
           (if IsPermanent ierr
            then Success (MessageUnboxedWithError
                   \<lparr>uerr_ErrType = ExportType b ierr,
                    uerr_ErrMsg = UnboxingError_Error ierr,
                    uerr_MessageID = sh_MessageID sh,
                    uerr_MessageType = ch_MessageType (boxed_ClientHeader boxed),
                    uerr_Ctime = sh_Ctime sh\<rparr>)
            else Failure ierr, s)"
proof -
  have "unboxMessageWithKey b boxed k = Failure ierr"
    using unboxMessageWithKey_V1 [OF sh body v1 oh uh] vm by simp
  from UnboxMessage_Failure [OF keys key sh this] show ?thesis .
qed

lemma UnboxMessage_verify_Success:
  assumes keys: "KeyFinder_Find b (TLFNameExpanded b (boxed_ClientHeader boxed) fi)
                   (ch_TlfPublic (boxed_ClientHeader boxed)) = Inr keys"
    and key: "matchKeyLoop (CryptKeys keys) (boxed_KeyGeneration boxed) = Some k"
    and sh: "boxed_ServerHeader boxed = Some sh"
    and body: "decryptBody b boxed sh k = Inr (body, skip)"
    and v1: "skip \<or> body = BodyPlaintext_V1 v1"
    and oh: "open b (boxed_HeaderCiphertext boxed) k = Inr ph"
    and uh: "unmarshal_Header b ph = Inr (HeaderPlaintext_V1 hp)"
    and vm: "verifyMessageHeaderV1 b hp boxed skip = Success \<lparr>vmr_senderDeviceRevokedAt = revoked\<rparr>"
    and ld: "GetUPAKLoader b = Some loader"
    and c1: "bodyHashChecker b (hp_BodyHash hp) (sh_MessageID sh) convID s = (None, s1)"
    and c2: "prevChecker b (sh_MessageID sh) convID (hashV1 b (ed_E (boxed_HeaderCiphertext boxed))) s1
               = (None, s2)"
    and c3: "prevLoop b (hp_Prev hp) convID None s2 = (None, s3)"
  shows "UnboxMessage b boxed convID fi s =
           (Success (MessageUnboxedWithValid
              \<lparr>valid_ClientHeader = clientHeaderOfV1 hp,
               valid_ServerHeader = sh,
               valid_MessageBody = (if skip then MessageBody_zero else bp_MessageBody v1),
               valid_SenderUsername = fst (senderInfo loader (clientHeaderOfV1 hp)),
               valid_SenderDeviceName = fst (snd (senderInfo loader (clientHeaderOfV1 hp))),
               valid_SenderDeviceType = snd (snd (senderInfo loader (clientHeaderOfV1 hp))),
               valid_BodyHash = hp_BodyHash hp,
               valid_HeaderHash = hashV1 b (ed_E (boxed_HeaderCiphertext boxed)),
               valid_HeaderSignature = hp_HeaderSignature hp,
               valid_SenderDeviceRevokedAt = revoked\<rparr>), s3)"
proof -
  define umwkr where "umwkr =
     \<lparr>messagePlaintext =
        \<lparr>pt_ClientHeader = clientHeaderOfV1 hp,
         pt_MessageBody = (if skip then MessageBody_zero else bp_MessageBody v1)\<rparr>,
      bodyHash = hp_BodyHash hp,
      headerHash = hashV1 b (ed_E (boxed_HeaderCiphertext boxed)),
      headerSignature = hp_HeaderSignature hp,
      senderDeviceRevokedAt = revoked\<rparr>"
  have um: "unboxMessageWithKey b boxed k = Success umwkr"
    using unboxMessageWithKey_V1 [OF sh body v1 oh uh] vm by (simp add: umwkr_def)
  have c1': "bodyHashChecker b (bodyHash umwkr) (sh_MessageID sh) convID s = (None, s1)"
    using c1 by (simp add: umwkr_def)
  have c2': "prevChecker b (sh_MessageID sh) convID (headerHash umwkr) s1 = (None, s2)"
    using c2 by (simp add: umwkr_def)
  have c3': "prevLoop b (ch_Prev (pt_ClientHeader (messagePlaintext umwkr))) convID None s2 = (None, s3)"
    using c3 by (simp add: umwkr_def clientHeaderOfV1_def)
  show ?thesis
    unfolding UnboxMessage_Success [OF keys key sh um ld c1' c2' c3']
    by (simp add: umwkr_def)
qed

section \<open>The claims\<close>

text \<open>The definitions that evaluating the pipeline on the test doubles unfolds.\<close>

lemmas test_defs = test_boxer_def test_boxer1_def test_received_def test_msg_def test_clientHeader_def
  test_body_def test_rnd_def
  test_headerV1_def test_boxed_def test_key1_def test_key2_def test_keypair_def test_loader_def
  test_loaderWith_def test_rejectPrev_def test_valid_def test_boxerKID_def test_tombstone_def
  test_boxerGrown_def
  test_Seal_def test_Open_def test_Verify_def test_kid_def enc1_def dec1_def
  NoopBodyHashChecker_def NoopPrevChecker_def test_serverHeader_def
  NaclDHKeySecretSize_def NaclSignatureSize_def NaclDHNonceSize_def SignaturePrefixChat_def

lemmas box_defs = BoxMessage_def boxMessageWithKeys_def seal_def signMarshal_def sign_def
  latestMerkleRoot_def headerV1Of_def

lemmas unbox_defs = UnboxMessage_def unboxMessageWithKey_def decryptBody_def open_def verifyMessage_def
  verifyMessageHeaderV1_def verify_def SecureByteArrayEq_def ValidSenderKey_def makeErrorMessage_def
  senderInfo_def getSenderInfoLocal_def getSenderUsername_def clientHeaderOfV1_def
  IsZero_def After_def gregor1_FromTime_def gregor1_ToTime_def keybase1KeybaseTimeToTime_def time_Unix_def

text \<open>
  C1, as stated: unboxing the envelope that \<open>BoxMessage\<close> produced gives a valid
  record whose client header is the plaintext's after canonicalisation of the TLF name.
  First, the envelope that \<open>BoxMessage\<close> produces has no server header, and
  \<open>unboxMessageWithKey\<close> rejects an envelope without one (\<open>UnboxMessage\<close> then
  panics on the missing header). Second, for a plaintext whose client header has a Merkle
  root, the envelope with a server header attached unboxes to a valid record whose client
  header has none: the header plaintext has no field for it.
\<close>

theorem roundtrip_as_stated_fails:
  "BoxMessage test_boxer1 test_msg test_keypair test_rnd = Inr (test_boxed False test_key1) \<and>
   boxed_ServerHeader (test_boxed False test_key1) = None \<and>
   UnboxMessage test_boxer1 (test_boxed False test_key1) [1] None () = (Panic, ()) \<and>
   unboxMessageWithKey test_boxer1 (test_boxed False test_key1) test_key1
     = Failure (NewPermanentUnboxingError (Some (errors_New ''nil ServerHeader in MessageBoxed''))) \<and>
   BoxMessage test_boxer1
      (test_msg\<lparr>pt_ClientHeader := test_clientHeader\<lparr>ch_MerkleRoot := Some (5, [7])\<rparr>\<rparr>)
      test_keypair test_rnd = Inr (test_boxed False test_key1) \<and>
   UnboxMessage test_boxer1 (test_received 0) [1] None ()
     = (Success (MessageUnboxedWithValid (test_valid (test_serverHeader\<lparr>sh_SupersededBy := 0\<rparr>))),
        ()) \<and>
   valid_ClientHeader (test_valid (test_serverHeader\<lparr>sh_SupersededBy := 0\<rparr>))
     \<noteq> (test_clientHeader\<lparr>ch_MerkleRoot := Some (5, [7])\<rparr>)\<lparr>ch_TlfName := ''alice,bob''\<rparr>"
  by (simp add: box_defs unbox_defs test_defs Let_def)

text \<open>
  C1, amended. Take the envelope that \<open>BoxMessage\<close> returns for a plaintext and a
  signing key pair, and attach a server header to it, as the server does. Suppose the
  collaborators are correct: nonces have 24 bytes, the codec decodes what it encoded,
  secretbox opens what it sealed under the same nonce and key, the sealed body is not
  empty, a signature made by the signing key verifies and its key is a valid key of the
  sender at the server's ctime. Suppose that in the key list the key finder returns for the
  expanded name, the first key of the envelope's generation is a key the envelope was
  sealed with (boxing the plaintext under it gives this envelope), and that the checkers
  accept the message. Then unboxing returns a valid record whose message body is the
  plaintext's and whose client header is the plaintext's with the canonical TLF name and
  without Merkle root.
\<close>

theorem roundtrip_with_server_header:
  assumes box: "BoxMessage b P S rnd = Inr boxed"
    and nonces: "\<And>i n. rnd i = Inr n \<Longrightarrow> length n = NaclDHNonceSize"
    and body_codec: "\<And>x bs. marshal_Body b x = Inr bs \<Longrightarrow> unmarshal_Body b bs = Inr x"
    and header_codec: "\<And>x bs. marshal_Header b x = Inr bs \<Longrightarrow> unmarshal_Header b bs = Inr x"
    and secretbox: "\<And>m n k. length n = NaclDHNonceSize \<Longrightarrow>
                      secretbox_Open b (secretbox_Seal b m n k) n k = Some m"
    and body_nonempty: "ed_E (boxed_BodyCiphertext boxed) \<noteq> []"
    and signature: "\<And>m sg. b_sign b m S SignaturePrefixChat = Inr sg \<Longrightarrow>
                      verify b m sg SignaturePrefixChat \<and>
                      (\<exists>revoked. ValidSenderKey b (ch_Sender (pt_ClientHeader P)) (si_K sg) (sh_Ctime sh)
                         = (True, True, revoked, None))"
    and box_keys: "KeyFinder_Find b (ch_TlfName (pt_ClientHeader P)) (ch_TlfPublic (pt_ClientHeader P))
                     = Inr cres"
    and unbox_keys: "KeyFinder_Find b (TLFNameExpanded b (boxed_ClientHeader boxed) fi)
                       (ch_TlfPublic (pt_ClientHeader P)) = Inr cres'"
    and found: "matchKeyLoop (CryptKeys cres') (boxed_KeyGeneration boxed) = Some k"
    and sealed: "boxMessageWithKeys b (P\<lparr>pt_ClientHeader := boxed_ClientHeader boxed\<rparr>) k S rnd
                   = Inr boxed"
    and replay: "bodyHashChecker b (hashV1 b (ed_E (boxed_BodyCiphertext boxed))) (sh_MessageID sh)
                   convID s = (None, sa)"
    and prev: "prevChecker b (sh_MessageID sh) convID (hashV1 b (ed_E (boxed_HeaderCiphertext boxed))) sa
                 = (None, sb)"
    and prevs: "prevLoop b (ch_Prev (pt_ClientHeader P)) convID None sb = (None, sc)"
  shows "\<exists>v. UnboxMessage b (boxed\<lparr>boxed_ServerHeader := Some sh\<rparr>) convID fi s
                = (Success (MessageUnboxedWithValid v), sc) \<and>
             valid_MessageBody v = pt_MessageBody P \<and>
             valid_ClientHeader v =
               (pt_ClientHeader P)\<lparr>ch_TlfName := CanonicalName cres, ch_MerkleRoot := None\<rparr>"
proof -
  define ch where "ch = boxed_ClientHeader boxed"
  define P' where "P' = P\<lparr>pt_ClientHeader := ch\<rparr>"
  from BoxMessage_ClientHeader [OF box box_keys] obtain mr where
    bch: "boxed_ClientHeader boxed
            = (pt_ClientHeader P)\<lparr>ch_TlfName := CanonicalName cres, ch_MerkleRoot := mr\<rparr>"
    by blast
  have chn: "ch\<lparr>ch_MerkleRoot := None\<rparr>
               = (pt_ClientHeader P)\<lparr>ch_TlfName := CanonicalName cres, ch_MerkleRoot := None\<rparr>"
    and pub: "ch_TlfPublic ch = ch_TlfPublic (pt_ClientHeader P)"
    and sender: "ch_Sender ch = ch_Sender (pt_ClientHeader P)"
    and prevp: "ch_Prev ch = ch_Prev (pt_ClientHeader P)"
    by (simp_all add: ch_def bch)
  have sealed': "boxMessageWithKeys b P' k S rnd = Inr boxed"
    using sealed by (simp add: P'_def ch_def)
  show ?thesis
  proof (rule boxMessageWithKeys_InrD [OF sealed'])
    fix pb n0 hm sg ph n1
    define bh where "bh = hashV1 b (secretbox_Seal b pb n0 (Key k))"
    define hp where "hp = (headerV1Of ch bh)\<lparr>hp_HeaderSignature := Some sg\<rparr>"
    assume pb: "marshal_Body b (BodyPlaintext_V1 \<lparr>bp_MessageBody = pt_MessageBody P'\<rparr>) = Inr pb"
      and n0: "rnd 0 = Inr n0"
      and hm: "marshal_HeaderV1 b
         (headerV1Of (pt_ClientHeader P') (hashV1 b (secretbox_Seal b pb n0 (Key k)))) = Inr hm"
      and sgn: "b_sign b hm S SignaturePrefixChat = Inr sg"
      and ph: "marshal_Header b (HeaderPlaintext_V1
          ((headerV1Of (pt_ClientHeader P') (hashV1 b (secretbox_Seal b pb n0 (Key k))))
             \<lparr>hp_HeaderSignature := Some sg\<rparr>)) = Inr ph"
      and n1: "rnd 1 = Inr n1"
      and boxed: "boxed = \<lparr>boxed_ServerHeader = None,
              boxed_ClientHeader = pt_ClientHeader P',
              boxed_HeaderCiphertext =
                \<lparr>ed_V = 1, ed_E = secretbox_Seal b ph n1 (Key k), ed_N = n1\<rparr>,
              boxed_BodyCiphertext =
                \<lparr>ed_V = 1, ed_E = secretbox_Seal b pb n0 (Key k), ed_N = n0\<rparr>,
              boxed_KeyGeneration = KeyGeneration k\<rparr>"
    let ?e = "boxed\<lparr>boxed_ServerHeader := Some sh\<rparr>"
    have chP': "pt_ClientHeader P' = ch" "pt_MessageBody P' = pt_MessageBody P"
      by (simp_all add: P'_def)
    have ln0: "length n0 = NaclDHNonceSize" and ln1: "length n1 = NaclDHNonceSize"
      using nonces n0 n1 by blast+
    have keys: "KeyFinder_Find b (TLFNameExpanded b (boxed_ClientHeader ?e) fi)
                   (ch_TlfPublic (boxed_ClientHeader ?e)) = Inr cres'"
      using unbox_keys pub by (simp add: ch_def)
    have key: "matchKeyLoop (CryptKeys cres') (boxed_KeyGeneration ?e) = Some k"
      using found by simp
    have shd: "boxed_ServerHeader ?e = Some sh" by simp
    have bodyE: "ed_E (boxed_BodyCiphertext boxed) = secretbox_Seal b pb n0 (Key k)"
      and bodyN: "ed_N (boxed_BodyCiphertext boxed) = n0"
      and headE: "ed_E (boxed_HeaderCiphertext boxed) = secretbox_Seal b ph n1 (Key k)"
      and headN: "ed_N (boxed_HeaderCiphertext boxed) = n1"
      by (subst boxed, simp)+
    have ne: "secretbox_Seal b pb n0 (Key k) \<noteq> []"
      using body_nonempty by (simp add: bodyE)
    have db: "decryptBody b ?e sh k
                = Inr (BodyPlaintext_V1 \<lparr>bp_MessageBody = pt_MessageBody P\<rparr>, False)"
      using ne ln0 secretbox [OF ln0] body_codec [OF pb]
      by (simp add: decryptBody_def open_def bodyE bodyN chP')
    have v1: "False \<or> BodyPlaintext_V1 \<lparr>bp_MessageBody = pt_MessageBody P\<rparr>
                = BodyPlaintext_V1 \<lparr>bp_MessageBody = pt_MessageBody P\<rparr>"
      by simp
    have oh: "open b (boxed_HeaderCiphertext ?e) k = Inr ph"
      using ln1 secretbox [OF ln1] by (simp add: open_def headE headN)
    have uh: "unmarshal_Header b ph = Inr (HeaderPlaintext_V1 hp)"
      using header_codec [OF ph] by (simp add: hp_def bh_def chP')
    have hash: "False \<or> hashV1 b (ed_E (boxed_BodyCiphertext ?e)) = hp_BodyHash hp"
      by (simp add: bodyE hp_def bh_def headerV1Of_def)
    have mh: "marshal_HeaderV1 b (hp\<lparr>hp_HeaderSignature := None\<rparr>) = Inr hm"
      using hm by (simp add: hp_def bh_def chP' headerV1Of_def)
    have sg: "hp_HeaderSignature hp = Some sg"
      by (simp add: hp_def)
    from signature [OF sgn] obtain revoked where
      vf: "verify b hm sg SignaturePrefixChat"
      and vs0: "ValidSenderKey b (ch_Sender (pt_ClientHeader P)) (si_K sg) (sh_Ctime sh)
                  = (True, True, revoked, None)"
      by blast
    have vs: "ValidSenderKey b (hp_Sender hp) (si_K sg) (sh_Ctime sh) = (True, True, revoked, None)"
      using vs0 by (simp add: hp_def headerV1Of_def sender)
    obtain loader where ld: "GetUPAKLoader b = Some loader"
      using vs by (rule ValidSenderKey_found_loader)
    have vm: "verifyMessageHeaderV1 b hp ?e False = Success \<lparr>vmr_senderDeviceRevokedAt = revoked\<rparr>"
      using verifyMessageHeaderV1_checked [OF shd hash mh sg vf] vs by simp
    have c1: "bodyHashChecker b (hp_BodyHash hp) (sh_MessageID sh) convID s = (None, sa)"
      using replay by (simp add: bodyE hp_def bh_def headerV1Of_def)
    have c2: "prevChecker b (sh_MessageID sh) convID (hashV1 b (ed_E (boxed_HeaderCiphertext ?e))) sa
                = (None, sb)"
      using prev by simp
    have c3: "prevLoop b (hp_Prev hp) convID None sb = (None, sc)"
      using prevs by (simp add: hp_def headerV1Of_def prevp)
    note r = UnboxMessage_verify_Success [OF keys key shd db v1 oh uh vm ld c1 c2 c3]
    have chv: "clientHeaderOfV1 hp
                 = (pt_ClientHeader P)\<lparr>ch_TlfName := CanonicalName cres, ch_MerkleRoot := None\<rparr>"
      by (simp add: hp_def clientHeaderOfV1_headerV1Of chn)
    show ?thesis
      unfolding r by (simp add: chv)
  qed
qed

theorem roundtrip_with_server_header_witness:
  "BoxMessage test_boxerGrown test_msg test_keypair test_rnd = Inr (test_boxed False test_key1) \<and>
   KeyFinder_Find test_boxerGrown (ch_TlfName (pt_ClientHeader test_msg)) False
     = Inr \<lparr>CanonicalName = ''alice,bob'', CryptKeys = [test_key1]\<rparr> \<and>
   KeyFinder_Find test_boxerGrown
      (TLFNameExpanded test_boxerGrown (boxed_ClientHeader (test_boxed False test_key1)) None) False
     = Inr \<lparr>CanonicalName = ''alice,bob'', CryptKeys = [test_key1, test_key2]\<rparr> \<and>
   (\<exists>v. UnboxMessage test_boxerGrown (test_received 0) [1] None ()
           = (Success (MessageUnboxedWithValid v), ()) \<and>
        valid_MessageBody v = pt_MessageBody test_msg \<and>
        valid_ClientHeader v
          = (pt_ClientHeader test_msg)\<lparr>ch_TlfName := ''alice,bob'', ch_MerkleRoot := None\<rparr>) \<and>
   BoxMessage (test_boxer [publicCryptKey] (HeaderPlaintext_V1 (test_headerV1 True publicCryptKey)))
     (test_msg\<lparr>pt_ClientHeader := test_clientHeader\<lparr>ch_TlfPublic := True\<rparr>\<rparr>) test_keypair test_rnd
     = Inr (test_boxed True publicCryptKey) \<and>
   (\<exists>v. UnboxMessage (test_boxer [publicCryptKey] (HeaderPlaintext_V1 (test_headerV1 True publicCryptKey)))
           ((test_boxed True publicCryptKey)\<lparr>boxed_ServerHeader := Some test_serverHeader\<rparr>) [1] None ()
           = (Success (MessageUnboxedWithValid v), ()) \<and>
        valid_MessageBody v = MessageBody 1 [104, 105] \<and>
        valid_ClientHeader v
          = test_clientHeader\<lparr>ch_TlfPublic := True, ch_TlfName := ''alice,bob'', ch_MerkleRoot := None\<rparr>)"
proof -
  have nonces: "\<And>i n. test_rnd i = Inr n \<Longrightarrow> length n = NaclDHNonceSize"
    by (auto simp: test_rnd_def)

  let ?bg = test_boxerGrown
  have body_codec1: "\<And>x bs. marshal_Body ?bg x = Inr bs \<Longrightarrow> unmarshal_Body ?bg bs = Inr x"
    by (simp add: test_boxerGrown_def test_boxer1_def test_boxer_def enc1_def dec1_def
        split: if_splits)
  have header_codec1: "\<And>x bs. marshal_Header ?bg x = Inr bs \<Longrightarrow> unmarshal_Header ?bg bs = Inr x"
    by (simp add: test_boxerGrown_def test_boxer1_def test_boxer_def enc1_def dec1_def
        split: if_splits)
  have secretbox1: "\<And>m n k. length n = NaclDHNonceSize \<Longrightarrow>
       secretbox_Open ?bg (secretbox_Seal ?bg m n k) n k = Some m"
    by (simp add: test_boxerGrown_def test_boxer1_def test_boxer_def test_Seal_def test_Open_def)
  have signature1: "\<And>sender ctime m sg.
       b_sign ?bg m test_keypair SignaturePrefixChat = Inr sg \<Longrightarrow>
       verify ?bg m sg SignaturePrefixChat \<and>
       (\<exists>revoked. ValidSenderKey ?bg sender (si_K sg) ctime = (True, True, revoked, None))"
    by (auto simp: test_boxerGrown_def test_boxer1_def test_boxer_def sign_def test_keypair_def
        verify_def test_Verify_def ValidSenderKey_def test_loader_def Let_def NaclSignatureSize_def)
  have cks1: "\<And>x y z s. bodyHashChecker ?bg x y z s = (None, ())"
    "\<And>x y z s. prevChecker ?bg x y z s = (None, ())"
    by (simp_all add: test_boxerGrown_def test_boxer1_def test_boxer_def
        NoopBodyHashChecker_def NoopPrevChecker_def)
  have pl1: "\<And>ps c. prevLoop ?bg ps c None () = (None, ())"
  proof -
    fix ps c
    show "prevLoop ?bg ps c None () = (None, ())"
      by (induction ps) (simp_all add: cks1)
  qed
  have box1: "BoxMessage ?bg test_msg test_keypair test_rnd = Inr (test_boxed False test_key1)"
    by (simp add: box_defs test_defs Let_def)
  have ne1: "ed_E (boxed_BodyCiphertext (test_boxed False test_key1)) \<noteq> []"
    by (simp add: test_defs)
  have bk1: "KeyFinder_Find ?bg (ch_TlfName (pt_ClientHeader test_msg))
               (ch_TlfPublic (pt_ClientHeader test_msg))
             = Inr \<lparr>CanonicalName = ''alice,bob'', CryptKeys = [test_key1]\<rparr>"
    by (simp add: test_defs)
  have uk1: "KeyFinder_Find ?bg
               (TLFNameExpanded ?bg (boxed_ClientHeader (test_boxed False test_key1)) None)
               (ch_TlfPublic (pt_ClientHeader test_msg))
             = Inr \<lparr>CanonicalName = ''alice,bob'', CryptKeys = [test_key1, test_key2]\<rparr>"
    by (simp add: test_defs)
  have found1: "matchKeyLoop
                  (CryptKeys \<lparr>CanonicalName = ''alice,bob'', CryptKeys = [test_key1, test_key2]\<rparr>)
                  (boxed_KeyGeneration (test_boxed False test_key1)) = Some test_key1"
    by (simp add: test_defs)
  have sealed1: "boxMessageWithKeys ?bg
                   (test_msg\<lparr>pt_ClientHeader := boxed_ClientHeader (test_boxed False test_key1)\<rparr>)
                   test_key1 test_keypair test_rnd = Inr (test_boxed False test_key1)"
    by (simp add: box_defs test_defs Let_def)
  note t1 = roundtrip_with_server_header [where b = ?bg and P = test_msg
      and S = test_keypair and rnd = test_rnd and boxed = "test_boxed False test_key1"
      and sh = "test_serverHeader\<lparr>sh_SupersededBy := 0\<rparr>" and fi = None
      and convID = "[1]" and s = "()" and sa = "()" and sb = "()" and sc = "()",
      OF box1 nonces body_codec1 header_codec1 secretbox1 ne1 signature1
         bk1 uk1 found1 sealed1 cks1(1) cks1(2) pl1]
  have r1: "\<exists>v. UnboxMessage ?bg (test_received 0) [1] None ()
           = (Success (MessageUnboxedWithValid v), ()) \<and>
        valid_MessageBody v = pt_MessageBody test_msg \<and>
        valid_ClientHeader v
          = (pt_ClientHeader test_msg)\<lparr>ch_TlfName := ''alice,bob'', ch_MerkleRoot := None\<rparr>"
    using t1 by (simp add: test_received_def)
  have bk1': "KeyFinder_Find ?bg (ch_TlfName (pt_ClientHeader test_msg)) False
     = Inr \<lparr>CanonicalName = ''alice,bob'', CryptKeys = [test_key1]\<rparr>"
    by (simp add: test_defs)
  have uk1': "KeyFinder_Find ?bg
      (TLFNameExpanded ?bg (boxed_ClientHeader (test_boxed False test_key1)) None) False
     = Inr \<lparr>CanonicalName = ''alice,bob'', CryptKeys = [test_key1, test_key2]\<rparr>"
    by (simp add: test_defs)

  let ?bp = "test_boxer [publicCryptKey] (HeaderPlaintext_V1 (test_headerV1 True publicCryptKey))"
  let ?Pp = "test_msg\<lparr>pt_ClientHeader := test_clientHeader\<lparr>ch_TlfPublic := True\<rparr>\<rparr>"
  have body_codec: "\<And>ks h x bs. marshal_Body (test_boxer ks h) x = Inr bs
                      \<Longrightarrow> unmarshal_Body (test_boxer ks h) bs = Inr x"
    by (simp add: test_boxer_def enc1_def dec1_def split: if_splits)
  have header_codec: "\<And>ks h x bs. marshal_Header (test_boxer ks h) x = Inr bs
                      \<Longrightarrow> unmarshal_Header (test_boxer ks h) bs = Inr x"
    by (simp add: test_boxer_def enc1_def dec1_def split: if_splits)
  have secretbox: "\<And>ks h m n k. length n = NaclDHNonceSize \<Longrightarrow>
       secretbox_Open (test_boxer ks h) (secretbox_Seal (test_boxer ks h) m n k) n k = Some m"
    by (simp add: test_boxer_def test_Seal_def test_Open_def)
  have signature: "\<And>ks h sender ctime m sg.
       b_sign (test_boxer ks h) m test_keypair SignaturePrefixChat = Inr sg \<Longrightarrow>
       verify (test_boxer ks h) m sg SignaturePrefixChat \<and>
       (\<exists>revoked. ValidSenderKey (test_boxer ks h) sender (si_K sg) ctime
          = (True, True, revoked, None))"
    by (auto simp: test_boxer_def sign_def test_keypair_def verify_def test_Verify_def
        ValidSenderKey_def test_loader_def Let_def NaclSignatureSize_def)
  have cks: "\<And>ks h x y z s. bodyHashChecker (test_boxer ks h) x y z s = (None, ())"
    "\<And>ks h x y z s. prevChecker (test_boxer ks h) x y z s = (None, ())"
    by (simp_all add: test_boxer_def NoopBodyHashChecker_def NoopPrevChecker_def)
  have pl: "\<And>ks h ps c. prevLoop (test_boxer ks h) ps c None () = (None, ())"
  proof -
    fix ks h ps c
    show "prevLoop (test_boxer ks h) ps c None () = (None, ())"
      by (induction ps) (simp_all add: cks)
  qed
  have find: "\<And>ks h name pub. KeyFinder_Find (test_boxer ks h) name pub
                = Inr \<lparr>CanonicalName = ''alice,bob'', CryptKeys = ks\<rparr>"
    by (simp add: test_boxer_def)
  have box2: "BoxMessage ?bp ?Pp test_keypair test_rnd = Inr (test_boxed True publicCryptKey)"
    by (simp add: box_defs test_defs publicCryptKey_def Let_def)
  have ne2: "ed_E (boxed_BodyCiphertext (test_boxed True publicCryptKey)) \<noteq> []"
    by (simp add: test_defs)
  have found2: "matchKeyLoop
                  (CryptKeys \<lparr>CanonicalName = ''alice,bob'', CryptKeys = [publicCryptKey]\<rparr>)
                  (boxed_KeyGeneration (test_boxed True publicCryptKey)) = Some publicCryptKey"
    by (simp add: test_defs)
  have sealed2: "boxMessageWithKeys ?bp
                   (?Pp\<lparr>pt_ClientHeader := boxed_ClientHeader (test_boxed True publicCryptKey)\<rparr>)
                   publicCryptKey test_keypair test_rnd = Inr (test_boxed True publicCryptKey)"
    by (simp add: box_defs test_defs publicCryptKey_def Let_def)
  note t2 = roundtrip_with_server_header [where b = ?bp and P = ?Pp
      and S = test_keypair and rnd = test_rnd and boxed = "test_boxed True publicCryptKey"
      and sh = test_serverHeader and fi = None
      and convID = "[1]" and s = "()" and sa = "()" and sb = "()" and sc = "()",
      OF box2 nonces body_codec header_codec secretbox ne2 signature
         find find found2 sealed2 cks(1) cks(2) pl]
  have r2: "\<exists>v. UnboxMessage ?bp
           ((test_boxed True publicCryptKey)\<lparr>boxed_ServerHeader := Some test_serverHeader\<rparr>) [1] None ()
           = (Success (MessageUnboxedWithValid v), ()) \<and>
        valid_MessageBody v = MessageBody 1 [104, 105] \<and>
        valid_ClientHeader v
          = test_clientHeader\<lparr>ch_TlfPublic := True, ch_TlfName := ''alice,bob'', ch_MerkleRoot := None\<rparr>"
    using t2 by (simp add: test_msg_def)
  from box1 bk1' uk1' r1 box2 r2 show ?thesis by (intro conjI)
qed

text \<open>
  C2. For a non-public plaintext \<open>BoxMessage\<close> should seal with the key of the highest
  generation. Evaluated on the key list \<open>[generation 2, generation 1]\<close>, the code seals
  with the generation-1 key and returns key generation 1: \<open>recentKey\<close> points to the
  loop variable, which ends holding the last key of the list.
\<close>

theorem recent_key_is_last_not_highest:
  "BoxMessage (test_boxer [test_key2, test_key1] (HeaderPlaintext_V1 (test_headerV1 False test_key1)))
      test_msg test_keypair test_rnd = Inr (test_boxed False test_key1) \<and>
   boxed_KeyGeneration (test_boxed False test_key1) = 1 \<and>
   ed_E (boxed_BodyCiphertext (test_boxed False test_key1)) = test_Seal [1] (replicate 24 0) (Key test_key1) \<and>
   KeyGeneration test_key2 = 2 \<and> Key test_key2 \<noteq> Key test_key1"
  by (simp add: box_defs test_defs Let_def)

text \<open>
  C3. When the prev checker reports an inconsistency, for the message's own id and header
  hash (id 7 here) or for a prev pointer it carries (id 3 here), \<open>UnboxMessage\<close> should
  return a permanent error that refers to the checker's error. Evaluated, it returns a
  permanent error wrapping nil: the code wraps \<open>replayErr\<close>, which is nil at that point.
\<close>

theorem prev_error_not_returned:
  "UnboxMessage (test_boxer1\<lparr>prevChecker := test_rejectPrev 7\<rparr>) (test_received 0) [1] None ()
     = (Failure (NewPermanentUnboxingError None), ()) \<and>
   UnboxMessage (test_boxer1\<lparr>prevChecker := test_rejectPrev 3\<rparr>) (test_received 0) [1] None ()
     = (Failure (NewPermanentUnboxingError None), ()) \<and>
   test_rejectPrev 7 7 [1] (take 4 (Key test_key1 @ [2])) () = (Some (ExternalError ''header hash mismatch''), ()) \<and>
   test_rejectPrev 3 3 [1] [9] () = (Some (ExternalError ''header hash mismatch''), ())"
  by (simp add: unbox_defs test_defs Let_def)

text \<open>
  C4, as stated: a failure to fetch the Merkle root makes \<open>BoxMessage\<close> return a
  permanent error. It does not: with a Merkle client that fails, the boxing error carries
  the root error and its permanent flag is false.
\<close>

theorem merkle_failure_not_permanent:
  "latestMerkleRoot (test_boxer1\<lparr>GetMerkleClient := Some (Inl (ExternalError ''merkle server unreachable''))\<rparr>)
     = Inl (ExternalError ''merkle server unreachable'') \<and>
   BoxMessage (test_boxer1\<lparr>GetMerkleClient := Some (Inl (ExternalError ''merkle server unreachable''))\<rparr>)
      test_msg test_keypair test_rnd
     = Inl (NewBoxingError (error_Error (ExternalError ''merkle server unreachable'')) False) \<and>
   \<not> be_Perm (NewBoxingError (error_Error (ExternalError ''merkle server unreachable'')) False)"
  by (simp add: box_defs test_defs Let_def)

text \<open>
  C4, amended. Let the TLF name be not blank and the key finder have answered. If the
  Merkle client's \<open>LastRootInfo\<close> fails, \<open>BoxMessage\<close> returns a boxing error that
  carries the text of the root error and is not permanent; if there is no Merkle client, it
  returns the non-permanent boxing error ``no MerkleClient available''. If the client
  returns a root without error, null or not, the root is accepted: whenever the canonical
  name is not blank, the key selection yields a key and sealing the plaintext, with the
  canonical name and the root in its client header, under that key succeeds,
  \<open>BoxMessage\<close> returns that envelope, whose client header carries the root.
\<close>

theorem merkle_root_failure_and_null:
  assumes name: "ch_TlfName (pt_ClientHeader P) \<noteq> []"
    and keys: "KeyFinder_Find b (ch_TlfName (pt_ClientHeader P)) (ch_TlfPublic (pt_ClientHeader P))
                 = Inr cres"
  shows
    "(GetMerkleClient b = Some (Inl err) \<longrightarrow>
        BoxMessage b P S rnd = Inl (NewBoxingError (error_Error err) False) \<and>
        \<not> be_Perm (NewBoxingError (error_Error err) False)) \<and>
     (GetMerkleClient b = None \<longrightarrow>
        BoxMessage b P S rnd
          = Inl (NewBoxingError (error_Error (fmt_Errorf ''no MerkleClient available'' [])) False) \<and>
        \<not> be_Perm (NewBoxingError (error_Error (fmt_Errorf ''no MerkleClient available'' [])) False)) \<and>
     (GetMerkleClient b = Some (Inr mr) \<and>
      CanonicalName cres \<noteq> [] \<and>
      (if ch_TlfPublic (pt_ClientHeader P)
       then load \<lparr>KeyGeneration = 0, Key = []\<rparr> addr_publicCryptKey
       else (case rangeCryptKeys (CryptKeys cres) \<lparr>KeyGeneration = 0, Key = []\<rparr> nil of
               (key, recentKey) \<Rightarrow> load key recentKey)) = Some recent \<and>
      boxMessageWithKeys b
        (P\<lparr>pt_ClientHeader :=
             (pt_ClientHeader P)\<lparr>ch_TlfName := CanonicalName cres, ch_MerkleRoot := mr\<rparr>\<rparr>)
        recent S rnd = Inr boxed \<longrightarrow>
        BoxMessage b P S rnd = Inr boxed \<and>
        ch_MerkleRoot (boxed_ClientHeader boxed) = mr)"
proof (intro conjI impI)
  assume "GetMerkleClient b = Some (Inl err)"
  then show "BoxMessage b P S rnd = Inl (NewBoxingError (error_Error err) False)"
    using name keys by (simp add: BoxMessage_def latestMerkleRoot_def Let_def split_beta)
  show "\<not> be_Perm (NewBoxingError (error_Error err) False)" by simp
next
  assume "GetMerkleClient b = None"
  then show "BoxMessage b P S rnd
          = Inl (NewBoxingError (error_Error (fmt_Errorf ''no MerkleClient available'' [])) False)"
    using name keys by (simp add: BoxMessage_def latestMerkleRoot_def Let_def split_beta)
  show "\<not> be_Perm (NewBoxingError (error_Error (fmt_Errorf ''no MerkleClient available'' [])) False)"
    by simp
next
  assume a: "GetMerkleClient b = Some (Inr mr) \<and>
      CanonicalName cres \<noteq> [] \<and>
      (if ch_TlfPublic (pt_ClientHeader P)
       then load \<lparr>KeyGeneration = 0, Key = []\<rparr> addr_publicCryptKey
       else (case rangeCryptKeys (CryptKeys cres) \<lparr>KeyGeneration = 0, Key = []\<rparr> nil of
               (key, recentKey) \<Rightarrow> load key recentKey)) = Some recent \<and>
      boxMessageWithKeys b
        (P\<lparr>pt_ClientHeader :=
             (pt_ClientHeader P)\<lparr>ch_TlfName := CanonicalName cres, ch_MerkleRoot := mr\<rparr>\<rparr>)
        recent S rnd = Inr boxed"
  then have mc: "GetMerkleClient b = Some (Inr mr)"
    and cn: "CanonicalName cres \<noteq> []"
    and sel: "(if ch_TlfPublic (pt_ClientHeader P)
       then load \<lparr>KeyGeneration = 0, Key = []\<rparr> addr_publicCryptKey
       else (case rangeCryptKeys (CryptKeys cres) \<lparr>KeyGeneration = 0, Key = []\<rparr> nil of
               (key, recentKey) \<Rightarrow> load key recentKey)) = Some recent"
    and bmk: "boxMessageWithKeys b
        (P\<lparr>pt_ClientHeader :=
             (pt_ClientHeader P)\<lparr>ch_TlfName := CanonicalName cres, ch_MerkleRoot := mr\<rparr>\<rparr>)
        recent S rnd = Inr boxed"
    by simp_all
  show "BoxMessage b P S rnd = Inr boxed"
  proof (cases "ch_TlfPublic (pt_ClientHeader P)")
    case True
    with sel name keys mc cn bmk show ?thesis
      by (simp add: BoxMessage_def latestMerkleRoot_def Let_def)
  next
    case False
    with sel name keys mc cn bmk show ?thesis
      by (simp add: BoxMessage_def latestMerkleRoot_def Let_def split_beta)
  qed
  show "ch_MerkleRoot (boxed_ClientHeader boxed) = mr"
  proof (rule boxMessageWithKeys_InrD [OF bmk])
    fix pb n0 hm sg ph n1
    assume boxed: "boxed = \<lparr>boxed_ServerHeader = None,
              boxed_ClientHeader = pt_ClientHeader (P\<lparr>pt_ClientHeader :=
                (pt_ClientHeader P)\<lparr>ch_TlfName := CanonicalName cres, ch_MerkleRoot := mr\<rparr>\<rparr>),
              boxed_HeaderCiphertext =
                \<lparr>ed_V = 1, ed_E = secretbox_Seal b ph n1 (Key recent), ed_N = n1\<rparr>,
              boxed_BodyCiphertext =
                \<lparr>ed_V = 1, ed_E = secretbox_Seal b pb n0 (Key recent), ed_N = n0\<rparr>,
              boxed_KeyGeneration = KeyGeneration recent\<rparr>"
    show ?thesis by (subst boxed) simp
  qed
qed

theorem merkle_root_failure_and_null_witness:
  "BoxMessage (test_boxer1\<lparr>GetMerkleClient := Some (Inl (ExternalError ''merkle server unreachable''))\<rparr>)
      test_msg test_keypair test_rnd
     = Inl (NewBoxingError (error_Error (ExternalError ''merkle server unreachable'')) False) \<and>
   BoxMessage (test_boxer1\<lparr>GetMerkleClient := None\<rparr>) test_msg test_keypair test_rnd
     = Inl (NewBoxingError (error_Error (fmt_Errorf ''no MerkleClient available'' [])) False) \<and>
   GetMerkleClient test_boxer1 = Some (Inr None) \<and>
   BoxMessage test_boxer1 test_msg test_keypair test_rnd = Inr (test_boxed False test_key1) \<and>
   ch_MerkleRoot (boxed_ClientHeader (test_boxed False test_key1)) = None \<and>
   BoxMessage (test_boxer1\<lparr>GetMerkleClient := Some (Inr (Some (5, [7])))\<rparr>)
      test_msg test_keypair test_rnd
     = Inr ((test_boxed False test_key1)
             \<lparr>boxed_ClientHeader :=
                (boxed_ClientHeader (test_boxed False test_key1))\<lparr>ch_MerkleRoot := Some (5, [7])\<rparr>\<rparr>) \<and>
   ch_MerkleRoot (boxed_ClientHeader ((test_boxed False test_key1)
             \<lparr>boxed_ClientHeader :=
                (boxed_ClientHeader (test_boxed False test_key1))\<lparr>ch_MerkleRoot := Some (5, [7])\<rparr>\<rparr>))
     = Some (5, [7])"
proof -
  let ?cres = "\<lparr>CanonicalName = ''alice,bob'', CryptKeys = [test_key1]\<rparr>"
  let ?rooted = "(test_boxed False test_key1)
             \<lparr>boxed_ClientHeader :=
                (boxed_ClientHeader (test_boxed False test_key1))\<lparr>ch_MerkleRoot := Some (5, [7])\<rparr>\<rparr>"
  have name: "ch_TlfName (pt_ClientHeader test_msg) \<noteq> []" by (simp add: test_defs)
  have keys: "\<And>mc. KeyFinder_Find (test_boxer1\<lparr>GetMerkleClient := mc\<rparr>)
                (ch_TlfName (pt_ClientHeader test_msg)) (ch_TlfPublic (pt_ClientHeader test_msg))
              = Inr ?cres"
    by (simp add: test_boxer1_def test_boxer_def)
  have mc: "\<And>mc. GetMerkleClient (test_boxer1\<lparr>GetMerkleClient := mc\<rparr>) = mc"
    by simp
  have mc0: "GetMerkleClient test_boxer1 = Some (Inr None)"
    by (simp add: test_boxer1_def test_boxer_def)
  have upd0: "test_boxer1\<lparr>GetMerkleClient := Some (Inr None)\<rparr> = test_boxer1"
    by (simp add: test_boxer1_def test_boxer_def)
  have cn: "CanonicalName ?cres \<noteq> []" by simp
  have sel: "(if ch_TlfPublic (pt_ClientHeader test_msg)
       then load \<lparr>KeyGeneration = 0, Key = []\<rparr> addr_publicCryptKey
       else (case rangeCryptKeys (CryptKeys ?cres) \<lparr>KeyGeneration = 0, Key = []\<rparr> nil of
               (key, recentKey) \<Rightarrow> load key recentKey)) = Some test_key1"
    by (simp add: test_defs)
  have bmk: "\<And>mc mr. boxMessageWithKeys (test_boxer1\<lparr>GetMerkleClient := mc\<rparr>)
        (test_msg\<lparr>pt_ClientHeader :=
             (pt_ClientHeader test_msg)\<lparr>ch_TlfName := CanonicalName ?cres, ch_MerkleRoot := mr\<rparr>\<rparr>)
        test_key1 test_keypair test_rnd
      = Inr ((test_boxed False test_key1)
             \<lparr>boxed_ClientHeader :=
                (boxed_ClientHeader (test_boxed False test_key1))\<lparr>ch_MerkleRoot := mr\<rparr>\<rparr>)"
    by (simp add: box_defs test_defs Let_def)
  note t = merkle_root_failure_and_null [OF name keys]
  have a: "BoxMessage (test_boxer1\<lparr>GetMerkleClient := Some (Inl (ExternalError ''merkle server unreachable''))\<rparr>)
      test_msg test_keypair test_rnd
     = Inl (NewBoxingError (error_Error (ExternalError ''merkle server unreachable'')) False)"
    using t [THEN conjunct1, THEN mp, OF mc] by simp
  have b: "BoxMessage (test_boxer1\<lparr>GetMerkleClient := None\<rparr>) test_msg test_keypair test_rnd
     = Inl (NewBoxingError (error_Error (fmt_Errorf ''no MerkleClient available'' [])) False)"
    using t [THEN conjunct2, THEN conjunct1, THEN mp, OF mc] by simp
  have c: "BoxMessage (test_boxer1\<lparr>GetMerkleClient := Some (Inr (Some (5, [7])))\<rparr>)
      test_msg test_keypair test_rnd = Inr ?rooted \<and>
      ch_MerkleRoot (boxed_ClientHeader ?rooted) = Some (5, [7])"
    by (rule t [THEN conjunct2, THEN conjunct2, THEN mp,
        OF conjI [OF mc conjI [OF cn conjI [OF sel bmk]]]])
  have d0: "BoxMessage (test_boxer1\<lparr>GetMerkleClient := Some (Inr None)\<rparr>)
      test_msg test_keypair test_rnd
      = Inr ((test_boxed False test_key1)
             \<lparr>boxed_ClientHeader :=
                (boxed_ClientHeader (test_boxed False test_key1))\<lparr>ch_MerkleRoot := None\<rparr>\<rparr>) \<and>
      ch_MerkleRoot (boxed_ClientHeader ((test_boxed False test_key1)
             \<lparr>boxed_ClientHeader :=
                (boxed_ClientHeader (test_boxed False test_key1))\<lparr>ch_MerkleRoot := None\<rparr>\<rparr>)) = None"
    by (rule t [THEN conjunct2, THEN conjunct2, THEN mp,
        OF conjI [OF mc conjI [OF cn conjI [OF sel bmk]]]])
  have same: "(test_boxed False test_key1)
             \<lparr>boxed_ClientHeader :=
                (boxed_ClientHeader (test_boxed False test_key1))\<lparr>ch_MerkleRoot := None\<rparr>\<rparr>
            = test_boxed False test_key1"
    by (simp add: test_boxed_def test_clientHeader_def)
  from d0 have d: "BoxMessage test_boxer1 test_msg test_keypair test_rnd
                     = Inr (test_boxed False test_key1)"
    and d': "ch_MerkleRoot (boxed_ClientHeader (test_boxed False test_key1)) = None"
    by (simp_all add: upd0 same)
  from a b mc0 d d' c show ?thesis by (intro conjI) simp_all
qed

text \<open>
  C5, as stated: an envelope whose body ciphertext is not empty although
  \<open>supersededBy\<close> is not 0 is rejected. It is not: the received test envelope with
  \<open>supersededBy = 5\<close> and its body unboxes to the valid record.
\<close>

theorem superseded_with_body_accepted:
  "ed_E (boxed_BodyCiphertext (test_received 5)) \<noteq> [] \<and>
   boxed_ServerHeader (test_received 5) = Some (test_serverHeader\<lparr>sh_SupersededBy := 5\<rparr>) \<and>
   UnboxMessage test_boxer1 (test_received 5) [1] None ()
     = (Success (MessageUnboxedWithValid (test_valid (test_serverHeader\<lparr>sh_SupersededBy := 5\<rparr>))), ())"
  by (simp add: unbox_defs test_defs Let_def)

text \<open>
  C5, amended. Only one direction is enforced: an empty body ciphertext needs
  \<open>supersededBy \<noteq> 0\<close>. For an envelope with a server header, an empty body
  ciphertext and a key of its generation: with \<open>supersededBy = 0\<close> unboxing returns the
  stored record of the permanent error; with \<open>supersededBy \<noteq> 0\<close>, a header that
  decrypts to version 1 with a valid signature, a sender key valid at ctime and checkers
  that accept, unboxing returns a valid record with the empty message body, the client
  header and the body hash of the header, without any comparison of that body hash.
\<close>

theorem empty_body_needs_supersession:
  assumes keys: "KeyFinder_Find b (TLFNameExpanded b (boxed_ClientHeader boxed) fi)
                   (ch_TlfPublic (boxed_ClientHeader boxed)) = Inr keys"
    and key: "matchKeyLoop (CryptKeys keys) (boxed_KeyGeneration boxed) = Some k"
    and sh: "boxed_ServerHeader boxed = Some sh"
    and empty: "ed_E (boxed_BodyCiphertext boxed) = []"
  shows "(sh_SupersededBy sh = 0 \<longrightarrow>
           UnboxMessage b boxed convID fi s =
             (Success (MessageUnboxedWithError
                \<lparr>uerr_ErrType = ExportType b (NewPermanentUnboxingError
                    (Some (errors_New ''empty body and not superseded in MessageBoxed''))),
                 uerr_ErrMsg = UnboxingError_Error (NewPermanentUnboxingError
                    (Some (errors_New ''empty body and not superseded in MessageBoxed''))),
                 uerr_MessageID = sh_MessageID sh,
                 uerr_MessageType = ch_MessageType (boxed_ClientHeader boxed),
                 uerr_Ctime = sh_Ctime sh\<rparr>), s)) \<and>
         (sh_SupersededBy sh \<noteq> 0 \<and>
          open b (boxed_HeaderCiphertext boxed) k = Inr ph \<and>
          unmarshal_Header b ph = Inr (HeaderPlaintext_V1 hp) \<and>
          marshal_HeaderV1 b (hp\<lparr>hp_HeaderSignature := None\<rparr>) = Inr hpack \<and>
          hp_HeaderSignature hp = Some sg \<and>
          verify b hpack sg SignaturePrefixChat \<and>
          ValidSenderKey b (hp_Sender hp) (si_K sg) (sh_Ctime sh) = (True, True, revoked, None) \<and>
          bodyHashChecker b (hp_BodyHash hp) (sh_MessageID sh) convID s = (None, s1) \<and>
          prevChecker b (sh_MessageID sh) convID (hashV1 b (ed_E (boxed_HeaderCiphertext boxed))) s1
            = (None, s2) \<and>
          prevLoop b (hp_Prev hp) convID None s2 = (None, s3) \<longrightarrow>
           (\<exists>v. UnboxMessage b boxed convID fi s = (Success (MessageUnboxedWithValid v), s3) \<and>
                valid_MessageBody v = MessageBody_zero \<and>
                valid_ClientHeader v = clientHeaderOfV1 hp \<and>
                valid_BodyHash v = hp_BodyHash hp))"
proof (intro conjI impI)
  assume z: "sh_SupersededBy sh = 0"
  have "unboxMessageWithKey b boxed k = Failure (NewPermanentUnboxingError
          (Some (errors_New ''empty body and not superseded in MessageBoxed'')))"
    using sh empty z by (simp add: unboxMessageWithKey_def decryptBody_def)
  from UnboxMessage_Failure [OF keys key sh this]
  show "UnboxMessage b boxed convID fi s =
             (Success (MessageUnboxedWithError
                \<lparr>uerr_ErrType = ExportType b (NewPermanentUnboxingError
                    (Some (errors_New ''empty body and not superseded in MessageBoxed''))),
                 uerr_ErrMsg = UnboxingError_Error (NewPermanentUnboxingError
                    (Some (errors_New ''empty body and not superseded in MessageBoxed''))),
                 uerr_MessageID = sh_MessageID sh,
                 uerr_MessageType = ch_MessageType (boxed_ClientHeader boxed),
                 uerr_Ctime = sh_Ctime sh\<rparr>), s)"
    by simp
next
  assume a: "sh_SupersededBy sh \<noteq> 0 \<and>
          open b (boxed_HeaderCiphertext boxed) k = Inr ph \<and>
          unmarshal_Header b ph = Inr (HeaderPlaintext_V1 hp) \<and>
          marshal_HeaderV1 b (hp\<lparr>hp_HeaderSignature := None\<rparr>) = Inr hpack \<and>
          hp_HeaderSignature hp = Some sg \<and>
          verify b hpack sg SignaturePrefixChat \<and>
          ValidSenderKey b (hp_Sender hp) (si_K sg) (sh_Ctime sh) = (True, True, revoked, None) \<and>
          bodyHashChecker b (hp_BodyHash hp) (sh_MessageID sh) convID s = (None, s1) \<and>
          prevChecker b (sh_MessageID sh) convID (hashV1 b (ed_E (boxed_HeaderCiphertext boxed))) s1
            = (None, s2) \<and>
          prevLoop b (hp_Prev hp) convID None s2 = (None, s3)"
  then have nz: "sh_SupersededBy sh \<noteq> 0"
    and oh: "open b (boxed_HeaderCiphertext boxed) k = Inr ph"
    and uh: "unmarshal_Header b ph = Inr (HeaderPlaintext_V1 hp)"
    and mh: "marshal_HeaderV1 b (hp\<lparr>hp_HeaderSignature := None\<rparr>) = Inr hpack"
    and sg: "hp_HeaderSignature hp = Some sg"
    and vf: "verify b hpack sg SignaturePrefixChat"
    and vs: "ValidSenderKey b (hp_Sender hp) (si_K sg) (sh_Ctime sh) = (True, True, revoked, None)"
    and c1: "bodyHashChecker b (hp_BodyHash hp) (sh_MessageID sh) convID s = (None, s1)"
    and c2: "prevChecker b (sh_MessageID sh) convID (hashV1 b (ed_E (boxed_HeaderCiphertext boxed))) s1
            = (None, s2)"
    and c3: "prevLoop b (hp_Prev hp) convID None s2 = (None, s3)"
    by simp_all
  have db: "decryptBody b boxed sh k = Inr (BodyPlaintext_Unknown 0, True)"
    using empty nz by (simp add: decryptBody_def)
  have vm: "verifyMessageHeaderV1 b hp boxed True = Success \<lparr>vmr_senderDeviceRevokedAt = revoked\<rparr>"
    using verifyMessageHeaderV1_checked [OF sh _ mh sg vf, of True] vs by simp
  define umwkr where "umwkr =
     \<lparr>messagePlaintext = \<lparr>pt_ClientHeader = clientHeaderOfV1 hp, pt_MessageBody = MessageBody_zero\<rparr>,
      bodyHash = hp_BodyHash hp,
      headerHash = hashV1 b (ed_E (boxed_HeaderCiphertext boxed)),
      headerSignature = hp_HeaderSignature hp,
      senderDeviceRevokedAt = revoked\<rparr>"
  have um: "unboxMessageWithKey b boxed k = Success umwkr"
    using unboxMessageWithKey_V1 [OF sh db _ oh uh, of undefined] vm by (simp add: umwkr_def)
  obtain loader where ld: "GetUPAKLoader b = Some loader"
    using vs by (rule ValidSenderKey_found_loader)
  have c1': "bodyHashChecker b (bodyHash umwkr) (sh_MessageID sh) convID s = (None, s1)"
    using c1 by (simp add: umwkr_def)
  have c2': "prevChecker b (sh_MessageID sh) convID (headerHash umwkr) s1 = (None, s2)"
    using c2 by (simp add: umwkr_def)
  have c3': "prevLoop b (ch_Prev (pt_ClientHeader (messagePlaintext umwkr))) convID None s2 = (None, s3)"
    using c3 by (simp add: umwkr_def clientHeaderOfV1_def)
  note r = UnboxMessage_Success [OF keys key sh um ld c1' c2' c3']
  show "\<exists>v. UnboxMessage b boxed convID fi s = (Success (MessageUnboxedWithValid v), s3) \<and>
                valid_MessageBody v = MessageBody_zero \<and>
                valid_ClientHeader v = clientHeaderOfV1 hp \<and>
                valid_BodyHash v = hp_BodyHash hp"
    unfolding r by (simp add: umwkr_def)
qed

theorem empty_body_needs_supersession_witness:
  "ed_E (boxed_BodyCiphertext (test_tombstone 0)) = [] \<and>
   UnboxMessage test_boxer1 (test_tombstone 0) [1] None ()
     = (Success (MessageUnboxedWithError
          \<lparr>uerr_ErrType = Misc,
           uerr_ErrMsg = UnboxingError_Error (NewPermanentUnboxingError
              (Some (errors_New ''empty body and not superseded in MessageBoxed''))),
           uerr_MessageID = 7,
           uerr_MessageType = 1,
           uerr_Ctime = 5000\<rparr>), ()) \<and>
   ed_E (boxed_BodyCiphertext (test_tombstone 5)) = [] \<and>
   hashV1 test_boxer1 [] \<noteq> hp_BodyHash (test_headerV1 False test_key1) \<and>
   (\<exists>v. UnboxMessage test_boxer1 (test_tombstone 5) [1] None ()
            = (Success (MessageUnboxedWithValid v), ()) \<and>
        valid_MessageBody v = MessageBody_zero \<and>
        valid_ClientHeader v = clientHeaderOfV1 (test_headerV1 False test_key1) \<and>
        valid_BodyHash v = hp_BodyHash (test_headerV1 False test_key1))"
proof -
  let ?b = test_boxer1
  let ?hp = "test_headerV1 False test_key1"
  let ?sg = "\<lparr>si_V = 2, si_S = replicate NaclSignatureSize 4, si_K = test_kid\<rparr>"
  have keys: "\<And>n. KeyFinder_Find ?b (TLFNameExpanded ?b (boxed_ClientHeader (test_tombstone n)) None)
                   (ch_TlfPublic (boxed_ClientHeader (test_tombstone n)))
                = Inr \<lparr>CanonicalName = ''alice,bob'', CryptKeys = [test_key1]\<rparr>"
    by (simp add: test_defs)
  have key: "\<And>n. matchKeyLoop (CryptKeys \<lparr>CanonicalName = ''alice,bob'', CryptKeys = [test_key1]\<rparr>)
               (boxed_KeyGeneration (test_tombstone n)) = Some test_key1"
    by (simp add: test_defs)
  have sh: "\<And>n. boxed_ServerHeader (test_tombstone n)
               = Some (test_serverHeader\<lparr>sh_SupersededBy := n\<rparr>)"
    by (simp add: test_defs)
  have empty: "\<And>n. ed_E (boxed_BodyCiphertext (test_tombstone n)) = []"
    by (simp add: test_defs)
  have z: "sh_SupersededBy (test_serverHeader\<lparr>sh_SupersededBy := 0\<rparr>) = 0" by simp
  have nz: "sh_SupersededBy (test_serverHeader\<lparr>sh_SupersededBy := 5\<rparr>) \<noteq> 0" by simp
  have oh: "\<And>n. open ?b (boxed_HeaderCiphertext (test_tombstone n)) test_key1 = Inr [2]"
    by (simp add: open_def test_defs)
  have uh: "unmarshal_Header ?b [2] = Inr (HeaderPlaintext_V1 ?hp)"
    by (simp add: test_defs)
  have mh: "marshal_HeaderV1 ?b (?hp\<lparr>hp_HeaderSignature := None\<rparr>)
                = Inr (take 4 (Key test_key1 @ [1]))"
    by (simp add: test_defs)
  have sg: "hp_HeaderSignature ?hp = Some ?sg"
    by (simp add: test_defs)
  have vf: "verify ?b (take 4 (Key test_key1 @ [1])) ?sg SignaturePrefixChat"
    by (simp add: verify_def test_defs)
  have vs: "\<And>n. ValidSenderKey ?b (hp_Sender ?hp) (si_K ?sg)
               (sh_Ctime (test_serverHeader\<lparr>sh_SupersededBy := n\<rparr>)) = (True, True, None, None)"
    by (simp add: ValidSenderKey_def test_defs)
  have c1: "\<And>n. bodyHashChecker ?b (hp_BodyHash ?hp)
               (sh_MessageID (test_serverHeader\<lparr>sh_SupersededBy := n\<rparr>)) [1] () = (None, ())"
    by (simp add: test_defs)
  have c2: "\<And>n. prevChecker ?b (sh_MessageID (test_serverHeader\<lparr>sh_SupersededBy := n\<rparr>)) [1]
                 (hashV1 ?b (ed_E (boxed_HeaderCiphertext (test_tombstone n)))) () = (None, ())"
    by (simp add: test_defs)
  have c3: "prevLoop ?b (hp_Prev ?hp) [1] None () = (None, ())"
    by (simp add: test_defs)
  have ct: "\<And>n. sh_Ctime (test_serverHeader\<lparr>sh_SupersededBy := n\<rparr>) = 5000"
    "\<And>n. sh_MessageID (test_serverHeader\<lparr>sh_SupersededBy := n\<rparr>) = 7"
    "\<And>n. ch_MessageType (boxed_ClientHeader (test_tombstone n)) = 1"
    by (simp_all add: test_defs)
  have et: "\<And>e. ExportType ?b (NewPermanentUnboxingError e) = Misc"
    by (simp add: test_defs)
  have hne: "hashV1 ?b [] \<noteq> hp_BodyHash ?hp"
    by (simp add: test_defs)
  note t = empty_body_needs_supersession [OF keys key sh empty]
  have a: "UnboxMessage ?b (test_tombstone 0) [1] None ()
     = (Success (MessageUnboxedWithError
          \<lparr>uerr_ErrType = Misc,
           uerr_ErrMsg = UnboxingError_Error (NewPermanentUnboxingError
              (Some (errors_New ''empty body and not superseded in MessageBoxed''))),
           uerr_MessageID = 7,
           uerr_MessageType = 1,
           uerr_Ctime = 5000\<rparr>), ())"
    using t [THEN conjunct1, THEN mp, OF z, of "[1]" "()"]
    by (simp add: ct et)
  have b: "\<exists>v. UnboxMessage ?b (test_tombstone 5) [1] None ()
            = (Success (MessageUnboxedWithValid v), ()) \<and>
        valid_MessageBody v = MessageBody_zero \<and>
        valid_ClientHeader v = clientHeaderOfV1 ?hp \<and>
        valid_BodyHash v = hp_BodyHash ?hp"
    by (rule t [THEN conjunct2, THEN mp,
        OF conjI [OF nz conjI [OF oh conjI [OF uh conjI [OF mh conjI [OF sg conjI [OF vf
             conjI [OF vs conjI [OF c1 conjI [OF c2 c3]]]]]]]]]])
  from empty [of 0] a empty [of 5] hne b show ?thesis by blast
qed

text \<open>
  C6, as stated: a signing key revoked at a time T before ctime makes unboxing fail with a
  permanent NoKey error. For T = 0 it fails with another permanent error, the zero clock
  time on the expired key, which the code checks first.
\<close>

theorem zero_revocation_time_not_NoKey:
  "CheckKIDForUID (test_loaderWith (Inr (True, Some \<lparr>kt_Unix = 0, kt_Chain = 0\<rparr>, False))) ''uid'' test_kid
     = Inr (True, Some \<lparr>kt_Unix = 0, kt_Chain = 0\<rparr>, False) \<and>
   (0 :: Time) < sh_Ctime test_serverHeader \<and>
   unboxMessageWithKey
     (test_boxer1\<lparr>GetUPAKLoader :=
        Some (test_loaderWith (Inr (True, Some \<lparr>kt_Unix = 0, kt_Chain = 0\<rparr>, False)))\<rparr>)
     (test_received 0) test_key1
     = Failure (NewPermanentUnboxingError (Some (fmt_Errorf ''zero clock time on expired key'' []))) \<and>
   UnboxMessage
     (test_boxer1\<lparr>GetUPAKLoader :=
        Some (test_loaderWith (Inr (True, Some \<lparr>kt_Unix = 0, kt_Chain = 0\<rparr>, False)))\<rparr>)
     (test_received 0) [1] None ()
     = (Success (MessageUnboxedWithError
          \<lparr>uerr_ErrType = Misc,
           uerr_ErrMsg = UnboxingError_Error
             (NewPermanentUnboxingError (Some (fmt_Errorf ''zero clock time on expired key'' []))),
           uerr_MessageID = 7,
           uerr_MessageType = 1,
           uerr_Ctime = 5000\<rparr>), ())"
  by (simp add: unbox_defs test_defs Let_def)

text \<open>
  C6, amended. For an envelope that decrypts to a version-1 header with a valid signature,
  whose sender has a user id and whose key the loader has found: a revocation time T that is
  not 0 and lies before ctime gives the stored record of the permanent NoKey error; a T that
  is not 0 and lies after ctime gives, when the checkers accept, a valid record with
  \<open>senderDeviceRevokedAt = T\<close>; a deleted user gives a valid record with
  \<open>senderDeviceRevokedAt = 0\<close>; an error of the loader is returned as a transient error;
  a revocation time of 0 gives the stored record of the permanent error
  ``zero clock time on expired key''.
\<close>

theorem sender_key_validity_at_ctime:
  assumes keys: "KeyFinder_Find b (TLFNameExpanded b (boxed_ClientHeader boxed) fi)
                   (ch_TlfPublic (boxed_ClientHeader boxed)) = Inr keys"
    and key: "matchKeyLoop (CryptKeys keys) (boxed_KeyGeneration boxed) = Some k"
    and sh: "boxed_ServerHeader boxed = Some sh"
    and body: "decryptBody b boxed sh k = Inr (body, skip)"
    and v1: "skip \<or> body = BodyPlaintext_V1 v1"
    and oh: "open b (boxed_HeaderCiphertext boxed) k = Inr ph"
    and uh: "unmarshal_Header b ph = Inr (HeaderPlaintext_V1 hp)"
    and hash: "skip \<or> hashV1 b (ed_E (boxed_BodyCiphertext boxed)) = hp_BodyHash hp"
    and mh: "marshal_HeaderV1 b (hp\<lparr>hp_HeaderSignature := None\<rparr>) = Inr hpack"
    and sg: "hp_HeaderSignature hp = Some sg"
    and vf: "verify b hpack sg SignaturePrefixChat"
    and uid: "UIDFromString b (hp_Sender hp) = Inr uid"
    and ld: "GetUPAKLoader b = Some loader"
  shows
    "(CheckKIDForUID loader uid (si_K sg) = Inr (True, Some r, False) \<and>
      kt_Unix r \<noteq> 0 \<and> kt_Unix r < sh_Ctime sh \<longrightarrow>
        UnboxMessage b boxed convID fi s =
          (Success (MessageUnboxedWithError
             \<lparr>uerr_ErrType = ExportType b (NewPermanentUnboxingError
                 (Some (NoKeyError ''key invalid for sender at message ctime''))),
              uerr_ErrMsg = UnboxingError_Error (NewPermanentUnboxingError
                 (Some (NoKeyError ''key invalid for sender at message ctime''))),
              uerr_MessageID = sh_MessageID sh,
              uerr_MessageType = ch_MessageType (boxed_ClientHeader boxed),
              uerr_Ctime = sh_Ctime sh\<rparr>), s)) \<and>
     (CheckKIDForUID loader uid (si_K sg) = Inr (True, Some r, False) \<and>
      kt_Unix r \<noteq> 0 \<and> sh_Ctime sh < kt_Unix r \<and>
      bodyHashChecker b (hp_BodyHash hp) (sh_MessageID sh) convID s = (None, s1) \<and>
      prevChecker b (sh_MessageID sh) convID (hashV1 b (ed_E (boxed_HeaderCiphertext boxed))) s1
        = (None, s2) \<and>
      prevLoop b (hp_Prev hp) convID None s2 = (None, s3) \<longrightarrow>
        (\<exists>v. UnboxMessage b boxed convID fi s = (Success (MessageUnboxedWithValid v), s3) \<and>
             valid_SenderDeviceRevokedAt v = Some (kt_Unix r))) \<and>
     (CheckKIDForUID loader uid (si_K sg) = Inr (True, ro, True) \<and>
      bodyHashChecker b (hp_BodyHash hp) (sh_MessageID sh) convID s = (None, s1) \<and>
      prevChecker b (sh_MessageID sh) convID (hashV1 b (ed_E (boxed_HeaderCiphertext boxed))) s1
        = (None, s2) \<and>
      prevLoop b (hp_Prev hp) convID None s2 = (None, s3) \<longrightarrow>
        (\<exists>v. UnboxMessage b boxed convID fi s = (Success (MessageUnboxedWithValid v), s3) \<and>
             valid_SenderDeviceRevokedAt v = Some 0)) \<and>
     (CheckKIDForUID loader uid (si_K sg) = Inl err \<longrightarrow>
        UnboxMessage b boxed convID fi s = (Failure (NewTransientUnboxingError (Some err)), s)) \<and>
     (CheckKIDForUID loader uid (si_K sg) = Inr (True, Some r, False) \<and> kt_Unix r = 0 \<longrightarrow>
        UnboxMessage b boxed convID fi s =
          (Success (MessageUnboxedWithError
             \<lparr>uerr_ErrType = ExportType b (NewPermanentUnboxingError
                 (Some (fmt_Errorf ''zero clock time on expired key'' []))),
              uerr_ErrMsg = UnboxingError_Error (NewPermanentUnboxingError
                 (Some (fmt_Errorf ''zero clock time on expired key'' []))),
              uerr_MessageID = sh_MessageID sh,
              uerr_MessageType = ch_MessageType (boxed_ClientHeader boxed),
              uerr_Ctime = sh_Ctime sh\<rparr>), s))"
proof -
  note vm = verifyMessageHeaderV1_checked [OF sh hash mh sg vf]
  note fail = UnboxMessage_verify_Failure [OF keys key sh body v1 oh uh]
  note succ = UnboxMessage_verify_Success [OF keys key sh body v1 oh uh _ ld]
  have a: "UnboxMessage b boxed convID fi s =
          (Success (MessageUnboxedWithError
             \<lparr>uerr_ErrType = ExportType b (NewPermanentUnboxingError
                 (Some (NoKeyError ''key invalid for sender at message ctime''))),
              uerr_ErrMsg = UnboxingError_Error (NewPermanentUnboxingError
                 (Some (NoKeyError ''key invalid for sender at message ctime''))),
              uerr_MessageID = sh_MessageID sh,
              uerr_MessageType = ch_MessageType (boxed_ClientHeader boxed),
              uerr_Ctime = sh_Ctime sh\<rparr>), s)"
    if ck: "CheckKIDForUID loader uid (si_K sg) = Inr (True, Some r, False)"
      and nz: "kt_Unix r \<noteq> 0" and lt: "kt_Unix r < sh_Ctime sh"
  proof -
    have "ValidSenderKey b (hp_Sender hp) (si_K sg) (sh_Ctime sh)
            = (True, sh_Ctime sh < kt_Unix r, Some (kt_Unix r), None)"
      by (rule ValidSenderKey_revoked [OF uid ld ck nz])
    with vm lt have "verifyMessageHeaderV1 b hp boxed skip = Failure (NewPermanentUnboxingError
                 (Some (NoKeyError ''key invalid for sender at message ctime'')))"
      by simp
    from fail [OF this] show ?thesis by simp
  qed
  have b: "\<exists>v. UnboxMessage b boxed convID fi s = (Success (MessageUnboxedWithValid v), s3) \<and>
             valid_SenderDeviceRevokedAt v = Some (kt_Unix r)"
    if ck: "CheckKIDForUID loader uid (si_K sg) = Inr (True, Some r, False)"
      and nz: "kt_Unix r \<noteq> 0" and gt: "sh_Ctime sh < kt_Unix r"
      and c1: "bodyHashChecker b (hp_BodyHash hp) (sh_MessageID sh) convID s = (None, s1)"
      and c2: "prevChecker b (sh_MessageID sh) convID (hashV1 b (ed_E (boxed_HeaderCiphertext boxed))) s1
        = (None, s2)"
      and c3: "prevLoop b (hp_Prev hp) convID None s2 = (None, s3)"
  proof -
    have "ValidSenderKey b (hp_Sender hp) (si_K sg) (sh_Ctime sh)
            = (True, sh_Ctime sh < kt_Unix r, Some (kt_Unix r), None)"
      by (rule ValidSenderKey_revoked [OF uid ld ck nz])
    with vm gt have "verifyMessageHeaderV1 b hp boxed skip
        = Success \<lparr>vmr_senderDeviceRevokedAt = Some (kt_Unix r)\<rparr>"
      by simp
    from succ [OF this c1 c2 c3] show ?thesis by simp
  qed
  have c: "\<exists>v. UnboxMessage b boxed convID fi s = (Success (MessageUnboxedWithValid v), s3) \<and>
             valid_SenderDeviceRevokedAt v = Some 0"
    if ck: "CheckKIDForUID loader uid (si_K sg) = Inr (True, ro, True)"
      and c1: "bodyHashChecker b (hp_BodyHash hp) (sh_MessageID sh) convID s = (None, s1)"
      and c2: "prevChecker b (sh_MessageID sh) convID (hashV1 b (ed_E (boxed_HeaderCiphertext boxed))) s1
        = (None, s2)"
      and c3: "prevLoop b (hp_Prev hp) convID None s2 = (None, s3)"
  proof -
    have "ValidSenderKey b (hp_Sender hp) (si_K sg) (sh_Ctime sh) = (True, True, Some 0, None)"
      using uid ld ck by (simp add: ValidSenderKey_def Let_def)
    with vm have "verifyMessageHeaderV1 b hp boxed skip
        = Success \<lparr>vmr_senderDeviceRevokedAt = Some 0\<rparr>"
      by simp
    from succ [OF this c1 c2 c3] show ?thesis by simp
  qed
  have d: "UnboxMessage b boxed convID fi s = (Failure (NewTransientUnboxingError (Some err)), s)"
    if ck: "CheckKIDForUID loader uid (si_K sg) = Inl err"
  proof -
    have "ValidSenderKey b (hp_Sender hp) (si_K sg) (sh_Ctime sh)
            = (False, False, None, Some (NewTransientUnboxingError (Some err)))"
      using uid ld ck by (simp add: ValidSenderKey_def Let_def)
    with vm have "verifyMessageHeaderV1 b hp boxed skip
        = Failure (NewTransientUnboxingError (Some err))"
      by simp
    from fail [OF this] show ?thesis by simp
  qed
  have e: "UnboxMessage b boxed convID fi s =
          (Success (MessageUnboxedWithError
             \<lparr>uerr_ErrType = ExportType b (NewPermanentUnboxingError
                 (Some (fmt_Errorf ''zero clock time on expired key'' []))),
              uerr_ErrMsg = UnboxingError_Error (NewPermanentUnboxingError
                 (Some (fmt_Errorf ''zero clock time on expired key'' []))),
              uerr_MessageID = sh_MessageID sh,
              uerr_MessageType = ch_MessageType (boxed_ClientHeader boxed),
              uerr_Ctime = sh_Ctime sh\<rparr>), s)"
    if ck: "CheckKIDForUID loader uid (si_K sg) = Inr (True, Some r, False)"
      and z: "kt_Unix r = 0"
  proof -
    have "ValidSenderKey b (hp_Sender hp) (si_K sg) (sh_Ctime sh)
            = (True, False, None, Some (NewPermanentUnboxingError
                 (Some (fmt_Errorf ''zero clock time on expired key'' []))))"
      using uid ld ck z by (simp add: ValidSenderKey_def Let_def IsZero_def)
    with vm have "verifyMessageHeaderV1 b hp boxed skip = Failure (NewPermanentUnboxingError
                 (Some (fmt_Errorf ''zero clock time on expired key'' [])))"
      by simp
    from fail [OF this] show ?thesis by simp
  qed
  from a b c d e show ?thesis by blast
qed

theorem sender_key_validity_at_ctime_witness:
  "UnboxMessage (test_boxerKID (Inr (True, Some \<lparr>kt_Unix = 1000, kt_Chain = 0\<rparr>, False)))
      (test_received 0) [1] None ()
     = (Success (MessageUnboxedWithError
          \<lparr>uerr_ErrType = Misc,
           uerr_ErrMsg = UnboxingError_Error (NewPermanentUnboxingError
              (Some (NoKeyError ''key invalid for sender at message ctime''))),
           uerr_MessageID = 7,
           uerr_MessageType = 1,
           uerr_Ctime = 5000\<rparr>), ()) \<and>
   (\<exists>v. UnboxMessage (test_boxerKID (Inr (True, Some \<lparr>kt_Unix = 9000, kt_Chain = 0\<rparr>, False)))
           (test_received 0) [1] None () = (Success (MessageUnboxedWithValid v), ()) \<and>
        valid_SenderDeviceRevokedAt v = Some 9000) \<and>
   (\<exists>v. UnboxMessage (test_boxerKID (Inr (True, None, True)))
           (test_received 0) [1] None () = (Success (MessageUnboxedWithValid v), ()) \<and>
        valid_SenderDeviceRevokedAt v = Some 0) \<and>
   UnboxMessage (test_boxerKID (Inl (ExternalError ''user server unreachable'')))
      (test_received 0) [1] None ()
     = (Failure (NewTransientUnboxingError (Some (ExternalError ''user server unreachable''))), ()) \<and>
   UnboxMessage (test_boxerKID (Inr (True, Some \<lparr>kt_Unix = 0, kt_Chain = 3\<rparr>, False)))
      (test_received 0) [1] None ()
     = (Success (MessageUnboxedWithError
          \<lparr>uerr_ErrType = Misc,
           uerr_ErrMsg = UnboxingError_Error (NewPermanentUnboxingError
              (Some (fmt_Errorf ''zero clock time on expired key'' []))),
           uerr_MessageID = 7,
           uerr_MessageType = 1,
           uerr_Ctime = 5000\<rparr>), ())"
proof -
  let ?e = "test_received 0"
  let ?hp = "test_headerV1 False test_key1"
  let ?sg = "\<lparr>si_V = 2, si_S = replicate NaclSignatureSize 4, si_K = test_kid\<rparr>"
  have keys: "\<And>oc. KeyFinder_Find (test_boxerKID oc)
                   (TLFNameExpanded (test_boxerKID oc) (boxed_ClientHeader ?e) None)
                   (ch_TlfPublic (boxed_ClientHeader ?e))
                = Inr \<lparr>CanonicalName = ''alice,bob'', CryptKeys = [test_key1]\<rparr>"
    by (simp add: test_defs)
  have key: "matchKeyLoop (CryptKeys \<lparr>CanonicalName = ''alice,bob'', CryptKeys = [test_key1]\<rparr>)
               (boxed_KeyGeneration ?e) = Some test_key1"
    by (simp add: test_defs)
  have sh: "boxed_ServerHeader ?e = Some test_serverHeader"
    by (simp add: test_defs)
  have body: "\<And>oc. decryptBody (test_boxerKID oc) ?e test_serverHeader test_key1
                  = Inr (test_body, False)"
    by (simp add: decryptBody_def open_def test_defs)
  have v1: "False \<or> test_body = BodyPlaintext_V1 \<lparr>bp_MessageBody = MessageBody 1 [104, 105]\<rparr>"
    by (simp add: test_defs)
  have oh: "\<And>oc. open (test_boxerKID oc) (boxed_HeaderCiphertext ?e) test_key1 = Inr [2]"
    by (simp add: open_def test_defs)
  have uh: "\<And>oc. unmarshal_Header (test_boxerKID oc) [2] = Inr (HeaderPlaintext_V1 ?hp)"
    by (simp add: test_defs)
  have hash: "\<And>oc. False \<or> hashV1 (test_boxerKID oc) (ed_E (boxed_BodyCiphertext ?e)) = hp_BodyHash ?hp"
    by (simp add: test_defs)
  have mh: "\<And>oc. marshal_HeaderV1 (test_boxerKID oc) (?hp\<lparr>hp_HeaderSignature := None\<rparr>)
                = Inr (take 4 (Key test_key1 @ [1]))"
    by (simp add: test_defs)
  have sg: "hp_HeaderSignature ?hp = Some ?sg"
    by (simp add: test_defs)
  have vf: "\<And>oc. verify (test_boxerKID oc) (take 4 (Key test_key1 @ [1])) ?sg SignaturePrefixChat"
    by (simp add: verify_def test_defs)
  have uid: "\<And>oc. UIDFromString (test_boxerKID oc) (hp_Sender ?hp) = Inr ''uid''"
    by (simp add: test_defs)
  have ld: "\<And>oc. GetUPAKLoader (test_boxerKID oc) = Some (test_loaderWith oc)"
    by (simp add: test_defs)
  have ck: "\<And>oc. CheckKIDForUID (test_loaderWith oc) ''uid'' (si_K ?sg) = oc"
    by (simp add: test_defs)
  have c1: "\<And>oc. bodyHashChecker (test_boxerKID oc) (hp_BodyHash ?hp) (sh_MessageID test_serverHeader) [1] ()
               = (None, ())"
    by (simp add: test_defs)
  have c2: "\<And>oc. prevChecker (test_boxerKID oc) (sh_MessageID test_serverHeader) [1]
                 (hashV1 (test_boxerKID oc) (ed_E (boxed_HeaderCiphertext ?e))) () = (None, ())"
    by (simp add: test_defs)
  have c3: "\<And>oc. prevLoop (test_boxerKID oc) (hp_Prev ?hp) [1] None () = (None, ())"
    by (simp add: test_defs)
  have ct: "sh_Ctime test_serverHeader = 5000" "sh_MessageID test_serverHeader = 7"
    "ch_MessageType (boxed_ClientHeader ?e) = 1"
    by (simp_all add: test_defs)
  have et: "\<And>oc e. ExportType (test_boxerKID oc) (NewPermanentUnboxingError e) = Misc"
    by (simp add: test_defs)
  note t = sender_key_validity_at_ctime [OF keys key sh body v1 oh uh hash mh sg vf uid ld]
  have a: "UnboxMessage (test_boxerKID (Inr (True, Some \<lparr>kt_Unix = 1000, kt_Chain = 0\<rparr>, False)))
      ?e [1] None ()
     = (Success (MessageUnboxedWithError
          \<lparr>uerr_ErrType = Misc,
           uerr_ErrMsg = UnboxingError_Error (NewPermanentUnboxingError
              (Some (NoKeyError ''key invalid for sender at message ctime''))),
           uerr_MessageID = 7,
           uerr_MessageType = 1,
           uerr_Ctime = 5000\<rparr>), ())"
    using t [THEN conjunct1, THEN mp, OF conjI [OF ck], of "\<lparr>kt_Unix = 1000, kt_Chain = 0\<rparr>" "[1]" "()"]
    by (simp add: ct et)
  have b: "\<exists>v. UnboxMessage (test_boxerKID (Inr (True, Some \<lparr>kt_Unix = 9000, kt_Chain = 0\<rparr>, False)))
           ?e [1] None () = (Success (MessageUnboxedWithValid v), ()) \<and>
        valid_SenderDeviceRevokedAt v = Some 9000"
    using t [THEN conjunct2, THEN conjunct1, THEN mp,
        OF conjI [OF ck conjI [OF _ conjI [OF _ conjI [OF c1 conjI [OF c2 c3]]]]],
        of "\<lparr>kt_Unix = 9000, kt_Chain = 0\<rparr>"]
    by (simp add: ct)
  have c: "\<exists>v. UnboxMessage (test_boxerKID (Inr (True, None, True)))
           ?e [1] None () = (Success (MessageUnboxedWithValid v), ()) \<and>
        valid_SenderDeviceRevokedAt v = Some 0"
    using t [THEN conjunct2, THEN conjunct2, THEN conjunct1, THEN mp,
        OF conjI [OF ck conjI [OF c1 conjI [OF c2 c3]]], of None]
    by simp
  have d: "UnboxMessage (test_boxerKID (Inl (ExternalError ''user server unreachable'')))
      ?e [1] None ()
     = (Failure (NewTransientUnboxingError (Some (ExternalError ''user server unreachable''))), ())"
    using t [THEN conjunct2, THEN conjunct2, THEN conjunct2, THEN conjunct1, THEN mp, OF ck,
        of "ExternalError ''user server unreachable''" "[1]" "()"]
    by simp
  have e: "UnboxMessage (test_boxerKID (Inr (True, Some \<lparr>kt_Unix = 0, kt_Chain = 3\<rparr>, False)))
      ?e [1] None ()
     = (Success (MessageUnboxedWithError
          \<lparr>uerr_ErrType = Misc,
           uerr_ErrMsg = UnboxingError_Error (NewPermanentUnboxingError
              (Some (fmt_Errorf ''zero clock time on expired key'' []))),
           uerr_MessageID = 7,
           uerr_MessageType = 1,
           uerr_Ctime = 5000\<rparr>), ())"
    using t [THEN conjunct2, THEN conjunct2, THEN conjunct2, THEN conjunct2, THEN mp,
        OF conjI [OF ck], of "\<lparr>kt_Unix = 0, kt_Chain = 3\<rparr>" "[1]" "()"]
    by (simp add: ct et)
  from a b c d e show ?thesis by (intro conjI)
qed

text \<open>
  C7. Boxing a plaintext whose \<open>tlfPublic\<close> is true seals body and header with the
  all-zero 32-byte key and returns key generation 1, whatever key list the key finder
  returns.
\<close>

theorem public_sentinel:
  assumes "ch_TlfPublic (pt_ClientHeader P)"
    and "BoxMessage b P S rnd = Inr boxed"
  shows "\<exists>pb n0 ph n1.
           rnd 0 = Inr n0 \<and> rnd 1 = Inr n1 \<and>
           marshal_Body b (BodyPlaintext_V1 \<lparr>bp_MessageBody = pt_MessageBody P\<rparr>) = Inr pb \<and>
           boxed_BodyCiphertext boxed =
             \<lparr>ed_V = 1, ed_E = secretbox_Seal b pb n0 (replicate 32 0), ed_N = n0\<rparr> \<and>
           boxed_HeaderCiphertext boxed =
             \<lparr>ed_V = 1, ed_E = secretbox_Seal b ph n1 (replicate 32 0), ed_N = n1\<rparr> \<and>
           boxed_KeyGeneration boxed = 1"
proof (rule BoxMessage_InrD [OF assms(2)])
  fix cres :: GetTLFCryptKeysRes and mr recent
  assume recent: "recent = (if ch_TlfPublic (pt_ClientHeader P) then publicCryptKey
               else last (CryptKeys cres))"
    and bmk: "boxMessageWithKeys b
       (P\<lparr>pt_ClientHeader :=
              (pt_ClientHeader P)\<lparr>ch_TlfName := CanonicalName cres, ch_MerkleRoot := mr\<rparr>\<rparr>)
       recent S rnd = Inr boxed"
  from recent assms(1) have r: "recent = publicCryptKey" by simp
  show ?thesis
  proof (rule boxMessageWithKeys_InrD [OF bmk])
    fix pb n0 hm sg ph n1
    assume pb: "marshal_Body b (BodyPlaintext_V1 \<lparr>bp_MessageBody = pt_MessageBody
        (P\<lparr>pt_ClientHeader :=
              (pt_ClientHeader P)\<lparr>ch_TlfName := CanonicalName cres, ch_MerkleRoot := mr\<rparr>\<rparr>)\<rparr>) = Inr pb"
      and n0: "rnd 0 = Inr n0" and n1: "rnd 1 = Inr n1"
      and boxed: "boxed = \<lparr>boxed_ServerHeader = None,
              boxed_ClientHeader = pt_ClientHeader (P\<lparr>pt_ClientHeader :=
              (pt_ClientHeader P)\<lparr>ch_TlfName := CanonicalName cres, ch_MerkleRoot := mr\<rparr>\<rparr>),
              boxed_HeaderCiphertext =
                \<lparr>ed_V = 1, ed_E = secretbox_Seal b ph n1 (Key recent), ed_N = n1\<rparr>,
              boxed_BodyCiphertext =
                \<lparr>ed_V = 1, ed_E = secretbox_Seal b pb n0 (Key recent), ed_N = n0\<rparr>,
              boxed_KeyGeneration = KeyGeneration recent\<rparr>"
    have k: "Key recent = replicate 32 0" "KeyGeneration recent = 1"
      by (simp_all add: r publicCryptKey_def NaclDHKeySecretSize_def)
    from pb have pb': "marshal_Body b (BodyPlaintext_V1 \<lparr>bp_MessageBody = pt_MessageBody P\<rparr>) = Inr pb"
      by simp
    have "rnd 0 = Inr n0 \<and> rnd 1 = Inr n1 \<and>
           marshal_Body b (BodyPlaintext_V1 \<lparr>bp_MessageBody = pt_MessageBody P\<rparr>) = Inr pb \<and>
           boxed_BodyCiphertext boxed =
             \<lparr>ed_V = 1, ed_E = secretbox_Seal b pb n0 (replicate 32 0), ed_N = n0\<rparr> \<and>
           boxed_HeaderCiphertext boxed =
             \<lparr>ed_V = 1, ed_E = secretbox_Seal b ph n1 (replicate 32 0), ed_N = n1\<rparr> \<and>
           boxed_KeyGeneration boxed = 1"
      using n0 n1 pb' k by (simp add: boxed)
    then show ?thesis by blast
  qed
qed

theorem public_sentinel_witness:
  "ch_TlfPublic (pt_ClientHeader (test_msg\<lparr>pt_ClientHeader := test_clientHeader\<lparr>ch_TlfPublic := True\<rparr>\<rparr>)) \<and>
   BoxMessage (test_boxer [test_key2] (HeaderPlaintext_V1 (test_headerV1 True publicCryptKey)))
     (test_msg\<lparr>pt_ClientHeader := test_clientHeader\<lparr>ch_TlfPublic := True\<rparr>\<rparr>) test_keypair test_rnd
     = Inr (test_boxed True publicCryptKey) \<and>
   boxed_KeyGeneration (test_boxed True publicCryptKey) = 1 \<and>
   ed_E (boxed_BodyCiphertext (test_boxed True publicCryptKey)) = test_Seal [1] (replicate 24 0) (replicate 32 0)"
proof -
  let ?P = "test_msg\<lparr>pt_ClientHeader := test_clientHeader\<lparr>ch_TlfPublic := True\<rparr>\<rparr>"
  let ?b = "test_boxer [test_key2] (HeaderPlaintext_V1 (test_headerV1 True publicCryptKey))"
  have h1: "ch_TlfPublic (pt_ClientHeader ?P)" by simp
  have h2: "BoxMessage ?b ?P test_keypair test_rnd = Inr (test_boxed True publicCryptKey)"
    by (simp add: box_defs test_defs publicCryptKey_def Let_def)
  have h3: "ed_E (boxed_BodyCiphertext (test_boxed True publicCryptKey))
              = test_Seal [1] (replicate 24 0) (replicate 32 0)"
    by (simp add: test_defs publicCryptKey_def)
  from public_sentinel [OF h1 h2]
  have "boxed_KeyGeneration (test_boxed True publicCryptKey) = 1" by blast
  with h1 h2 h3 show ?thesis by blast
qed

text \<open>
  C8. Permanent errors of \<open>unboxMessageWithKey\<close> should come back as a stored error
  record. For an envelope without server header \<open>unboxMessageWithKey\<close> returns a
  permanent error, and \<open>UnboxMessage\<close> then panics on \<open>boxed.ServerHeader.MessageID\<close>
  instead of returning the record.
\<close>

theorem permanent_nil_ServerHeader_not_stored:
  "unboxMessageWithKey test_boxer1 (test_boxed False test_key1) test_key1
     = Failure (NewPermanentUnboxingError (Some (errors_New ''nil ServerHeader in MessageBoxed''))) \<and>
   IsPermanent (NewPermanentUnboxingError (Some (errors_New ''nil ServerHeader in MessageBoxed''))) \<and>
   UnboxMessage test_boxer1 (test_boxed False test_key1) [1] None () = (Panic, ())"
  by (simp add: unbox_defs test_defs Let_def)

text \<open>
  C9. For an envelope whose server header is null, \<open>UnboxMessage\<close> should return the
  permanent error record without reading through the null pointer. Evaluated on such an
  envelope, it panics.
\<close>

theorem nil_ServerHeader_panics:
  "UnboxMessage test_boxer1
     \<lparr>boxed_ServerHeader = None,
      boxed_ClientHeader = test_clientHeader,
      boxed_HeaderCiphertext = \<lparr>ed_V = 1, ed_E = [], ed_N = []\<rparr>,
      boxed_BodyCiphertext = \<lparr>ed_V = 1, ed_E = [], ed_N = []\<rparr>,
      boxed_KeyGeneration = 1\<rparr> [1] None () = (Panic, ())"
  by (simp add: unbox_defs test_defs Let_def)

text \<open>
  C10. For a decrypted version-1 header whose \<open>headerSignature\<close> is null, verification
  should return an error. Evaluated on such a header, \<open>verifyMessageHeaderV1\<close> panics
  on \<open>*header.HeaderSignature\<close>, and so does \<open>UnboxMessage\<close>.
\<close>

theorem nil_HeaderSignature_panics:
  "verifyMessageHeaderV1
      (test_boxer [test_key1] (HeaderPlaintext_V1 ((test_headerV1 False test_key1)\<lparr>hp_HeaderSignature := None\<rparr>)))
      ((test_headerV1 False test_key1)\<lparr>hp_HeaderSignature := None\<rparr>) (test_received 0) False = Panic \<and>
   UnboxMessage
      (test_boxer [test_key1] (HeaderPlaintext_V1 ((test_headerV1 False test_key1)\<lparr>hp_HeaderSignature := None\<rparr>)))
      (test_received 0) [1] None () = (Panic, ())"
  by (simp add: unbox_defs test_defs Let_def)

end
